theory Spec2Isabelle
  imports Complex_Main "HOL-Library.AList" "HOL-Library.Log_Nat"
begin

text \<open>
  A shallow embedding of the image-generation MCP server (\<^verbatim>\<open>src/index.ts\<close>): the
  filename deriver, the two download functions, the compressor, the metadata reader and
  the tool-call handler with its \<^verbatim>\<open>try\<close>/\<^verbatim>\<open>catch\<close> envelope.

  What the program cannot decide itself is a parameter: the network, the \<^verbatim>\<open>sharp\<close>
  codec, the Replicate backend, the clock and the random generator are fields of an
  environment record; the file system and the number of clock and random readings taken so
  far are the state that every effectful function receives and returns. A thrown
  \<^verbatim>\<open>Error\<close> is the left injection of a sum. The redirect recursion of the download
  functions has no bound in the source, so the model carries fuel: \<open>None\<close> means that the
  fuel did not suffice, never that the call failed.
\<close>

section \<open>JavaScript strings and number rendering\<close>

text \<open>
  Strings are lists of 8-bit characters, that is, JavaScript strings whose code units are
  below 256. \<open>show_nat\<close> is the decimal rendering that a template literal gives a
  non-negative integer below \<open>10^21\<close>.
\<close>

definition digit_char :: "nat \<Rightarrow> char" where
  "digit_char d =
     (if d = 0 then CHR ''0'' else if d = 1 then CHR ''1'' else if d = 2 then CHR ''2''
      else if d = 3 then CHR ''3'' else if d = 4 then CHR ''4'' else if d = 5 then CHR ''5''
      else if d = 6 then CHR ''6'' else if d = 7 then CHR ''7'' else if d = 8 then CHR ''8''
      else CHR ''9'')"

fun show_nat :: "nat \<Rightarrow> string" where
  "show_nat n = (if n < 10 then [digit_char n] else show_nat (n div 10) @ [digit_char (n mod 10)])"

declare show_nat.simps [simp del]

definition show_int :: "int \<Rightarrow> string" where
  "show_int i = (if i < 0 then ''-'' @ show_nat (nat (- i)) else show_nat (nat i))"

text \<open>\<^verbatim>\<open>s.startsWith(p)\<close>, \<^verbatim>\<open>s.endsWith(p)\<close> and \<^verbatim>\<open>s.includes(p)\<close>.\<close>

fun startsWith :: "string \<Rightarrow> string \<Rightarrow> bool" where
  "startsWith s [] = True"
| "startsWith [] (p # ps) = False"
| "startsWith (c # cs) (p # ps) = (c = p \<and> startsWith cs ps)"

definition endsWith :: "string \<Rightarrow> string \<Rightarrow> bool" where
  "endsWith s p = startsWith (rev s) (rev p)"

fun string_includes :: "string \<Rightarrow> string \<Rightarrow> bool" where
  "string_includes [] p = (p = [])"
| "string_includes (c # cs) p = (startsWith (c # cs) p \<or> string_includes cs p)"

text \<open>
  \<^verbatim>\<open>toLowerCase\<close> on code units below 256: the letters \<open>A\<close> to \<open>Z\<close> and the
  Latin-1 capitals \<open>0xC0\<close> to \<open>0xDE\<close> (without the multiplication sign \<open>0xD7\<close>) move
  up by 32, which sets bit 5; every other character stays.
\<close>

definition toLowerCase_char :: "char \<Rightarrow> char" where
  "toLowerCase_char c =
     (let n = (of_char c :: nat)
      in if (65 \<le> n \<and> n \<le> 90) \<or> (192 \<le> n \<and> n \<le> 222 \<and> n \<noteq> 215)
         then (case c of Char b0 b1 b2 b3 b4 b5 b6 b7 \<Rightarrow> Char b0 b1 b2 b3 b4 True b6 b7)
         else c)"

definition toLowerCase :: "string \<Rightarrow> string" where
  "toLowerCase s = map toLowerCase_char s"

text \<open>
  The class \<^verbatim>\<open>\s\<close> of a JavaScript regular expression, below 256: tab, line feed,
  vertical tab, form feed, carriage return, space and the no-break space.
\<close>

definition is_space :: "char \<Rightarrow> bool" where
  "is_space c = ((of_char c :: nat) \<in> {9, 10, 11, 12, 13, 32, 160})"

text \<open>The class \<^verbatim>\<open>["']\<close>.\<close>

definition is_quote :: "char \<Rightarrow> bool" where
  "is_quote c = (c = CHR 0x22 \<or> c = CHR 0x27)"

text \<open>The class \<^verbatim>\<open>[a-z0-9\s-]\<close>, whose complement the second replacement blanks.\<close>

definition is_slug_char :: "char \<Rightarrow> bool" where
  "is_slug_char c =
     (let n = (of_char c :: nat)
      in (97 \<le> n \<and> n \<le> 122) \<or> (48 \<le> n \<and> n \<le> 57) \<or> is_space c \<or> c = CHR ''-'')"

text \<open>\<^verbatim>\<open>s.replace(/[class]/g, " ")\<close>.\<close>

definition replace_chars :: "(char \<Rightarrow> bool) \<Rightarrow> string \<Rightarrow> string" where
  "replace_chars P s = map (\<lambda>c. if P c then CHR '' '' else c) s"

text \<open>
  \<^verbatim>\<open>s.split(/\s+/)\<close>: the pieces between maximal runs of white space. As in
  JavaScript, a string that starts or ends with white space yields an empty first or
  last piece, and the empty string yields one empty piece. \<open>cur\<close> is the piece being
  read, \<open>in_sep\<close> tells that the previous character was white space.
\<close>

fun split_ws :: "string \<Rightarrow> string \<Rightarrow> bool \<Rightarrow> string list" where
  "split_ws [] cur in_sep = [cur]"
| "split_ws (c # cs) cur in_sep =
     (if is_space c then (if in_sep then split_ws cs cur True else cur # split_ws cs [] True)
      else split_ws cs (cur @ [c]) False)"

text \<open>\<^verbatim>\<open>words.join(sep)\<close>.\<close>

fun join :: "string \<Rightarrow> string list \<Rightarrow> string" where
  "join sep [] = []"
| "join sep [w] = w"
| "join sep (w # v # ws) = w @ sep @ join sep (v # ws)"

text \<open>
  \<^verbatim>\<open>(size / 1024).toFixed(1) + " KB"\<close>. A size below \<open>2^53\<close> divided by 1024 is exact
  in binary64, and \<^verbatim>\<open>toFixed(1)\<close> picks the nearest tenth, the larger one on a tie:
  the number of tenths is \<open>\<lfloor>size * 10 / 1024 + 1/2\<rfloor>\<close>.
\<close>

definition format_kb :: "nat \<Rightarrow> string" where
  "format_kb size_bytes =
     (let tenths = (size_bytes * 20 + 1024) div 2048
      in show_nat (tenths div 10) @ ''.'' @ show_nat (tenths mod 10) @ '' KB'')"

section \<open>Binary64 arithmetic\<close>

text \<open>
  JavaScript numbers are IEEE 754 binary64 values. A finite one is a rational; \<open>fl\<close>
  rounds a rational to the nearest value with a 53-bit significand, ties to the even
  significand, which is what \<^verbatim>\<open>/\<close>, \<^verbatim>\<open>-\<close> and \<^verbatim>\<open>*\<close> do to their exact result.
  The exponent range is left out: the model is exact for magnitudes between \<open>2^-1022\<close>
  and \<open>2^1024\<close>, where every value computed from two file sizes lies.
\<close>

definition round_half_even :: "rat \<Rightarrow> int" where
  "round_half_even x =
     (let f = \<lfloor>x\<rfloor>; r = x - of_int f
      in if r < 1 / 2 then f else if 1 / 2 < r then f + 1 else if even f then f else f + 1)"

text \<open>\<open>ilog2 x\<close> is the exponent \<open>e\<close> with \<open>2^e \<le> x < 2^(e+1)\<close>, for positive \<open>x\<close>.\<close>

definition ilog2 :: "rat \<Rightarrow> int" where
  "ilog2 x = (if 1 \<le> x then bitlen \<lfloor>x\<rfloor> - 1 else - bitlen (\<lceil>1 / x\<rceil> - 1))"

definition fl :: "rat \<Rightarrow> rat" where
  "fl x =
     (if x = 0 then 0
      else let ulp = 2 powi (ilog2 \<bar>x\<bar> - 52) in of_int (round_half_even (x / ulp)) * ulp)"

text \<open>\<^verbatim>\<open>Math.round\<close>: the nearest integer, the larger one on a tie.\<close>

definition Math_round :: "rat \<Rightarrow> int" where
  "Math_round x = \<lfloor>x + 1 / 2\<rfloor>"

text \<open>
  The value of \<^verbatim>\<open>Math.round((1 - compressedSize / originalSize) * 100)\<close>. With
  \<^verbatim>\<open>originalSize\<close> zero the quotient is \<^verbatim>\<open>Infinity\<close> or \<^verbatim>\<open>NaN\<close>, and so is
  the result, with the sign turned by the subtraction.
\<close>

datatype js_number = Finite int | NegInfinity | NaN

definition savedPercent_of :: "nat \<Rightarrow> nat \<Rightarrow> js_number" where
  "savedPercent_of compressedSize originalSize =
     (if originalSize = 0 then (if compressedSize = 0 then NaN else NegInfinity)
      else Finite (Math_round
             (fl (fl (1 - fl (fl (of_nat compressedSize) / fl (of_nat originalSize))) * 100))))"

fun show_number :: "js_number \<Rightarrow> string" where
  "show_number (Finite i) = show_int i"
| "show_number NegInfinity = ''-Infinity''"
| "show_number NaN = ''NaN''"

section \<open>The filename deriver\<close>

definition stopWords :: "string list" where
  "stopWords =
    [''a'', ''an'', ''the'', ''and'', ''or'', ''but'', ''in'', ''on'', ''at'', ''to'', ''for'',
     ''of'', ''with'', ''by'', ''from'', ''as'', ''is'', ''was'', ''are'', ''were'', ''been'',
     ''be'', ''have'', ''has'', ''had'', ''do'', ''does'', ''did'', ''will'', ''would'', ''could'',
     ''should'', ''may'', ''might'', ''must'', ''shall'', ''can'', ''need'', ''it'', ''its'',
     ''this'', ''that'', ''these'', ''those'', ''i'', ''you'', ''he'', ''she'', ''we'', ''they'',
     ''what'', ''which'', ''who'', ''where'', ''when'', ''why'', ''how'', ''all'', ''each'',
     ''every'', ''both'', ''few'', ''more'', ''most'', ''other'', ''some'', ''such'', ''no'',
     ''not'', ''only'', ''own'', ''same'', ''so'', ''than'', ''too'', ''very'', ''just'', ''also'',
     ''image'', ''picture'', ''photo'', ''generate'', ''create'', ''make'', ''show'']"

text \<open>The tokens of a prompt: the chain from \<^verbatim>\<open>toLowerCase\<close> to \<^verbatim>\<open>split\<close>.\<close>

definition prompt_tokens :: "string \<Rightarrow> string list" where
  "prompt_tokens prompt =
     split_ws (replace_chars (\<lambda>c. \<not> is_slug_char c) (replace_chars is_quote (toLowerCase prompt)))
       [] False"

text \<open>
  \<^verbatim>\<open>generateFilenameFromPrompt(prompt, index)\<close>; \<open>timestamp\<close> is what
  \<^verbatim>\<open>Date.now()\<close> returns inside the call.
\<close>

definition generateFilenameFromPrompt :: "string \<Rightarrow> nat \<Rightarrow> nat \<Rightarrow> string" where
  "generateFilenameFromPrompt prompt index timestamp =
     (let kept = take 5 (filter (\<lambda>word. length word > 2 \<and> word \<notin> set stopWords)
                   (prompt_tokens prompt));
          words = (if length kept = 0 then kept @ [''image''] else kept);
          slug = join ''_'' words;
          indexSuffix = (if index > 0 then ''_'' @ show_nat (index + 1) else [])
      in slug @ ''_'' @ show_nat timestamp @ indexSuffix)"

section \<open>The model registry\<close>

record ModelConfig =
  model_id :: string
  name :: string
  provider :: string
  supportsReferenceImage :: bool
  cost :: string
  description :: string

definition MODELS :: "(string \<times> ModelConfig) list" where
  "MODELS =
    [(''imagen-3'',
        \<lparr>model_id = ''google-deepmind/imagen-3.0-generate-001'', name = ''Google Imagen 3'',
         provider = ''replicate'', supportsReferenceImage = False, cost = ''$0.04'',
         description = ''Google's latest image generation model. High quality.''\<rparr>),
     (''imagen-3-fast'',
        \<lparr>model_id = ''google-deepmind/imagen-3.0-fast-generate-001'', name = ''Google Imagen 3 Fast'',
         provider = ''replicate'', supportsReferenceImage = False, cost = ''$0.02'',
         description = ''Faster, cheaper version of Imagen 3.''\<rparr>),
     (''nano-banana-pro'',
        \<lparr>model_id = ''google-deepmind/nano-banana-pro'', name = ''Nano Banana Pro'',
         provider = ''replicate'', supportsReferenceImage = True, cost = ''$0.05'',
         description =
           ''Google's advanced model. Excellent text rendering and reference image support.''\<rparr>),
     (''flux-schnell'',
        \<lparr>model_id = ''black-forest-labs/flux-schnell'', name = ''Flux Schnell'',
         provider = ''replicate'', supportsReferenceImage = False, cost = ''$0.003'',
         description = ''Fastest and cheapest. Good for quick iterations.''\<rparr>),
     (''flux-dev'',
        \<lparr>model_id = ''black-forest-labs/flux-dev'', name = ''Flux Dev'',
         provider = ''replicate'', supportsReferenceImage = False, cost = ''$0.025'',
         description = ''Higher quality, better details.''\<rparr>),
     (''flux-pro'',
        \<lparr>model_id = ''black-forest-labs/flux-1.1-pro'', name = ''Flux 1.1 Pro'',
         provider = ''replicate'', supportsReferenceImage = False, cost = ''$0.04'',
         description = ''Professional quality. Good text rendering.''\<rparr>),
     (''flux-redux'',
        \<lparr>model_id = ''black-forest-labs/flux-redux-dev'', name = ''Flux Redux'',
         provider = ''replicate'', supportsReferenceImage = True, cost = ''$0.025'',
         description = ''For image-to-image and style transfer.''\<rparr>)]"

definition DEFAULT_MODEL :: string where
  "DEFAULT_MODEL = ''imagen-3''"

definition DEFAULT_COMPRESSION_QUALITY :: int where
  "DEFAULT_COMPRESSION_QUALITY = 85"

definition modelKeys :: "string list" where
  "modelKeys = map fst MODELS"

text \<open>
  \<^verbatim>\<open>MODELS\<close> is an object literal, and \<^verbatim>\<open>MODELS[model]\<close> is a property read: a key
  that the literal does not own is looked up in \<^verbatim>\<open>Object.prototype\<close>. The members of
  \<^verbatim>\<open>Object.prototype\<close> are functions (and, under \<^verbatim>\<open>__proto__\<close>, the prototype
  object itself): all of them truthy, none with a field of \<^verbatim>\<open>ModelConfig\<close> except
  the \<^verbatim>\<open>name\<close> that every function has, which the table records.
\<close>

definition Object_prototype :: "(string \<times> string option) list" where
  "Object_prototype =
    [(''constructor'', Some ''Object''),
     (''__defineGetter__'', Some ''__defineGetter__''),
     (''__defineSetter__'', Some ''__defineSetter__''),
     (''hasOwnProperty'', Some ''hasOwnProperty''),
     (''__lookupGetter__'', Some ''__lookupGetter__''),
     (''__lookupSetter__'', Some ''__lookupSetter__''),
     (''isPrototypeOf'', Some ''isPrototypeOf''),
     (''propertyIsEnumerable'', Some ''propertyIsEnumerable''),
     (''toString'', Some ''toString''),
     (''valueOf'', Some ''valueOf''),
     (''__proto__'', None),
     (''toLocaleString'', Some ''toLocaleString'')]"

datatype model_lookup = OwnProperty ModelConfig | Inherited "string option" | Undefined

definition MODELS_get :: "string \<Rightarrow> model_lookup" where
  "MODELS_get key =
     (case map_of MODELS key of
        Some config \<Rightarrow> OwnProperty config
      | None \<Rightarrow>
          (case map_of Object_prototype key of
             Some member_name \<Rightarrow> Inherited member_name
           | None \<Rightarrow> Undefined))"

text \<open>The reads \<^verbatim>\<open>modelConfig.supportsReferenceImage\<close> (as a condition) and \<^verbatim>\<open>modelConfig.id\<close>.\<close>

fun config_supportsReferenceImage :: "model_lookup \<Rightarrow> bool" where
  "config_supportsReferenceImage (OwnProperty config) = supportsReferenceImage config"
| "config_supportsReferenceImage (Inherited member_name) = False"
| "config_supportsReferenceImage Undefined = False"

fun config_id :: "model_lookup \<Rightarrow> string option" where
  "config_id (OwnProperty config) = Some (model_id config)"
| "config_id (Inherited member_name) = None"
| "config_id Undefined = None"

section \<open>Errors, JSON documents and the environment\<close>

datatype error = Error (message: string)

text \<open>
  The documents that the handler passes to \<^verbatim>\<open>JSON.stringify\<close>, and the input object
  of the backend. A field whose value is \<^verbatim>\<open>undefined\<close> is absent.
\<close>

datatype json =
    JNull
  | JBool bool
  | JNumber rat
  | JString string
  | JArray "json list"
  | JObject "(string \<times> json) list"

text \<open>What \<^verbatim>\<open>protocol.get\<close> reports: an error event, the 60 s timeout, or a response
  with its status code, its \<^verbatim>\<open>Location\<close> header and its body.\<close>

datatype http_outcome =
    RequestError string
  | RequestTimeout
  | Response nat "string option" string

text \<open>What \<^verbatim>\<open>replicate.run\<close> resolves to, each item already a string.\<close>

datatype backend_output = SingleUrl string | UrlList "string list"

record sharp_metadata =
  md_width :: "nat option"
  md_height :: "nat option"
  md_format :: "string option"

record env =
  OUTPUT_DIR :: string
  REPLICATE_API_TOKEN :: "string option"
  now :: "nat \<Rightarrow> nat"
  random36 :: "nat \<Rightarrow> nat list"
  https_get :: "string \<Rightarrow> http_outcome"
  http_get :: "string \<Rightarrow> http_outcome"
  write_stream_error :: "string \<Rightarrow> string option"
  sharp_jpeg :: "string \<Rightarrow> (int option \<times> int option) option \<Rightarrow> int \<Rightarrow> string + string"
  sharp_read_metadata :: "string \<Rightarrow> string + sharp_metadata"
  replicate_run :: "string option \<Rightarrow> (string \<times> json) list \<Rightarrow> string + backend_output"
  path_resolve :: "string \<Rightarrow> string"
  is_directory :: "string \<Rightarrow> bool"
  birthtime :: "string \<Rightarrow> nat"
  toISOString :: "nat \<Rightarrow> string"
  base64 :: "string \<Rightarrow> string"

text \<open>
  \<^item> \<open>now env k\<close> is the value of the \<open>k\<close>-th call of \<^verbatim>\<open>Date.now()\<close>, and
    \<open>random36 env k\<close> the base-36 digits after the point of the \<open>k\<close>-th
    \<^verbatim>\<open>Math.random()\<close>;
  \<^item> \<open>write_stream_error env p\<close> is the error that a write stream to \<open>p\<close> emits, if any;
  \<^item> \<open>sharp_jpeg env bytes resize quality\<close> is the JPEG that \<^verbatim>\<open>sharp\<close> encodes
    (with mozjpeg) from an image file, or its error message;
  \<^item> \<open>replicate_run env id input\<close> is the answer of the backend, or its error message;
  \<^item> \<open>path_resolve\<close> is \<^verbatim>\<open>path.resolve\<close> for the working directory of the process;
  \<^item> \<open>is_directory\<close> and \<open>birthtime\<close> (in milliseconds) are what the file system
    reports for a path, \<open>toISOString\<close> and \<open>base64\<close> the renderings of a date and of
    a buffer.

  The state: the regular files by path, with their bytes, and how many clock and random
  readings were taken.
\<close>

record world =
  files :: "(string \<times> string) list"
  clock_reads :: nat
  random_reads :: nat

definition existsSync :: "world \<Rightarrow> string \<Rightarrow> bool" where
  "existsSync w p = (map_of (files w) p \<noteq> None)"

definition writeFile :: "string \<Rightarrow> string \<Rightarrow> world \<Rightarrow> world" where
  "writeFile p bytes w = w\<lparr>files := AList.update p bytes (files w)\<rparr>"

definition unlink :: "string \<Rightarrow> world \<Rightarrow> world" where
  "unlink p w = w\<lparr>files := AList.delete p (files w)\<rparr>"

text \<open>The message of the error that \<^verbatim>\<open>fs.statSync\<close> throws for a missing file.\<close>

definition ENOENT_stat :: "string \<Rightarrow> error" where
  "ENOENT_stat p = Error (''ENOENT: no such file or directory, stat '' @ [CHR 0x27] @ p @ [CHR 0x27])"

subsection \<open>Paths\<close>

text \<open>
  The functions of the \<^verbatim>\<open>path\<close> module on normalised POSIX paths; \<^verbatim>\<open>path.join\<close> is
  used with a directory and a plain file name.
\<close>

definition path_join :: "string \<Rightarrow> string \<Rightarrow> string" where
  "path_join dir file =
     (if dir = [] \<or> dir = ''.'' then file
      else if last dir = CHR ''/'' then dir @ file
      else dir @ ''/'' @ file)"

definition path_basename :: "string \<Rightarrow> string" where
  "path_basename p = rev (takeWhile (\<lambda>c. c \<noteq> CHR ''/'') (rev p))"

definition path_dirname :: "string \<Rightarrow> string" where
  "path_dirname p =
     (let d = rev (drop 1 (dropWhile (\<lambda>c. c \<noteq> CHR ''/'') (rev p)))
      in if CHR ''/'' \<notin> set p then ''.'' else if d = [] then ''/'' else d)"

definition path_extname :: "string \<Rightarrow> string" where
  "path_extname p =
     (let b = path_basename p; e = rev (takeWhile (\<lambda>c. c \<noteq> CHR ''.'') (rev b))
      in if CHR ''.'' \<notin> set b \<or> b = ''..'' \<or> length e + 1 = length b then [] else ''.'' @ e)"

definition path_basename_ext :: "string \<Rightarrow> string \<Rightarrow> string" where
  "path_basename_ext p ext =
     (let b = path_basename p
      in if ext \<noteq> [] \<and> b \<noteq> ext \<and> endsWith b ext then take (length b - length ext) b else b)"

section \<open>Image processing functions\<close>

text \<open>\<^verbatim>\<open>getReplicateClient\<close>: the client is its token.\<close>

definition getReplicateClient :: "env \<Rightarrow> error + string" where
  "getReplicateClient env =
     (case REPLICATE_API_TOKEN env of
        None \<Rightarrow> Inl (Error (''REPLICATE_API_TOKEN environment variable is required. '' @
                 ''Get your API token from https://replicate.com/account/api-tokens''))
      | Some apiKey \<Rightarrow>
          if apiKey = []
          then Inl (Error (''REPLICATE_API_TOKEN environment variable is required. '' @
                 ''Get your API token from https://replicate.com/account/api-tokens''))
          else Inr apiKey)"

text \<open>\<^verbatim>\<open>url.startsWith("https") ? https : http\<close>, then \<^verbatim>\<open>protocol.get(url, ...)\<close>.\<close>

definition protocol_get :: "env \<Rightarrow> string \<Rightarrow> http_outcome" where
  "protocol_get env url = (if startsWith url ''https'' then https_get env url else http_get env url)"

text \<open>
  The redirect test of both download functions: the status is 301 or 302 and
  \<^verbatim>\<open>response.headers.location\<close> is truthy, that is, present and not empty.
\<close>

definition redirectUrl_of :: "nat \<Rightarrow> string option \<Rightarrow> string option" where
  "redirectUrl_of statusCode location =
     (if statusCode = 301 \<or> statusCode = 302
      then (case location of
              None \<Rightarrow> None
            | Some redirectUrl \<Rightarrow> if redirectUrl \<noteq> [] then Some redirectUrl else None)
      else None)"

text \<open>
  \<^verbatim>\<open>response.pipe(fs.createWriteStream(p))\<close> up to the \<^verbatim>\<open>finish\<close> or the
  \<^verbatim>\<open>error\<close> event of the stream: the file holds the body, or the stream fails and
  the handler unlinks the partial file.
\<close>

definition pipe_to_file :: "env \<Rightarrow> string \<Rightarrow> string \<Rightarrow> world \<Rightarrow> (error + unit) \<times> world" where
  "pipe_to_file env p body w =
     (case write_stream_error env p of
        None \<Rightarrow> (Inr (), writeFile p body w)
      | Some err \<Rightarrow> (Inl (Error err), unlink p w))"

text \<open>\<^verbatim>\<open>downloadImage(url, filename)\<close>; the fuel bounds the redirects that are followed.\<close>

fun downloadImage ::
  "nat \<Rightarrow> env \<Rightarrow> string \<Rightarrow> string \<Rightarrow> world \<Rightarrow> ((error + string) \<times> world) option" where
  "downloadImage fuel env url filename w =
     (let outputPath = path_join (OUTPUT_DIR env) filename
      in case protocol_get env url of
           RequestError err \<Rightarrow> Some (Inl (Error err), w)
         | RequestTimeout \<Rightarrow> Some (Inl (Error ''Download timeout''), w)
         | Response statusCode location body \<Rightarrow>
             (case redirectUrl_of statusCode location of
                Some redirectUrl \<Rightarrow>
                  (case fuel of
                     0 \<Rightarrow> None
                   | Suc fuel' \<Rightarrow> downloadImage fuel' env redirectUrl filename w)
              | None \<Rightarrow>
                  if statusCode \<noteq> 200
                  then Some (Inl (Error (''Failed to download image: HTTP '' @ show_nat statusCode)), w)
                  else (case pipe_to_file env outputPath body w of
                          (Inl err, w') \<Rightarrow> Some (Inl err, w')
                        | (Inr u, w') \<Rightarrow> Some (Inr outputPath, w'))))"

declare downloadImage.simps [simp del]

text \<open>\<^verbatim>\<open>fileToDataUri(filePath)\<close>.\<close>

definition fileToDataUri :: "env \<Rightarrow> string \<Rightarrow> world \<Rightarrow> error + string" where
  "fileToDataUri env filePath w =
     (let absolutePath = path_resolve env filePath
      in case map_of (files w) absolutePath of
           None \<Rightarrow> Inl (Error (''Reference image not found: '' @ absolutePath))
         | Some buffer \<Rightarrow>
             (let ext = toLowerCase (path_extname filePath);
                  mimeType =
                    (if ext = ''.jpg'' \<or> ext = ''.jpeg'' then ''image/jpeg''
                     else if ext = ''.webp'' then ''image/webp''
                     else if ext = ''.gif'' then ''image/gif''
                     else ''image/png'')
              in Inr (''data:'' @ mimeType @ '';base64,'' @ base64 env buffer)))"

record compression =
  originalSize :: nat
  compressedSize :: nat
  savedPercent :: js_number

record downloaded = compression +
  path :: string

text \<open>
  \<^verbatim>\<open>compressImage(inputPath, outputPath, options)\<close>, the options passed one by one.
  \<^verbatim>\<open>sharp\<close> refuses to write the file it reads; a resize is requested when
  \<^verbatim>\<open>maxWidth || maxHeight\<close> is truthy, that is, one of them is present and not zero.
\<close>

definition truthy_number :: "int option \<Rightarrow> bool" where
  "truthy_number n = (case n of None \<Rightarrow> False | Some v \<Rightarrow> v \<noteq> 0)"

definition compressImage ::
  "env \<Rightarrow> string \<Rightarrow> string \<Rightarrow> int option \<Rightarrow> int option \<Rightarrow> int option \<Rightarrow> world
    \<Rightarrow> (error + compression) \<times> world" where
  "compressImage env inputPath outputPath quality_opt maxWidth maxHeight w =
     (let quality = (case quality_opt of None \<Rightarrow> DEFAULT_COMPRESSION_QUALITY | Some q \<Rightarrow> q);
          absoluteInput = path_resolve env inputPath;
          absoluteOutput = path_resolve env outputPath
      in case map_of (files w) absoluteInput of
           None \<Rightarrow> (Inl (Error (''Input image not found: '' @ absoluteInput)), w)
         | Some original \<Rightarrow>
             (let originalSize = length original;
                  resize = (if truthy_number maxWidth \<or> truthy_number maxHeight
                            then Some (maxWidth, maxHeight) else None)
              in if absoluteInput = absoluteOutput
                 then (Inl (Error ''Cannot use same file for input and output''), w)
                 else (case sharp_jpeg env original resize quality of
                         Inl err \<Rightarrow> (Inl (Error err), w)
                       | Inr jpeg \<Rightarrow>
                           (let w' = writeFile absoluteOutput jpeg w
                            in case map_of (files w') absoluteOutput of
                                 None \<Rightarrow> (Inl (ENOENT_stat absoluteOutput), w')
                               | Some compressed \<Rightarrow>
                                   (let compressedSize = length compressed
                                    in (Inr \<lparr>originalSize = originalSize,
                                              compressedSize = compressedSize,
                                              savedPercent =
                                                savedPercent_of compressedSize originalSize\<rparr>,
                                        w'))))))"

text \<open>
  The name of the temporary file,
  \<^verbatim>\<open>`temp_${Date.now()}_${Math.random().toString(36).slice(2)}`\<close>.
\<close>

definition base36_char :: "nat \<Rightarrow> char" where
  "base36_char d = ''0123456789abcdefghijklmnopqrstuvwxyz'' ! (d mod 36)"

definition tempFilename_of :: "nat \<Rightarrow> nat list \<Rightarrow> string" where
  "tempFilename_of timestamp digits = ''temp_'' @ show_nat timestamp @ ''_'' @ map base36_char digits"

text \<open>
  The second half of \<^verbatim>\<open>downloadAndCompressImage\<close>, after the download promise has
  resolved: \<^verbatim>\<open>statSync(tempPath)\<close>, the encoding to \<^verbatim>\<open>finalPath\<close>,
  \<^verbatim>\<open>unlinkSync(tempPath)\<close>, \<^verbatim>\<open>statSync(finalPath)\<close>.
\<close>

definition compress_download ::
  "env \<Rightarrow> string \<Rightarrow> string \<Rightarrow> int \<Rightarrow> world \<Rightarrow> (error + downloaded) \<times> world" where
  "compress_download env tempPath finalPath compressionQuality w =
     (case map_of (files w) tempPath of
        None \<Rightarrow> (Inl (ENOENT_stat tempPath), w)
      | Some original \<Rightarrow>
          (let originalSize = length original
           in if tempPath = finalPath
              then (Inl (Error ''Cannot use same file for input and output''), w)
              else (case sharp_jpeg env original None compressionQuality of
                      Inl err \<Rightarrow> (Inl (Error err), w)
                    | Inr jpeg \<Rightarrow>
                        (let w' = unlink tempPath (writeFile finalPath jpeg w)
                         in case map_of (files w') finalPath of
                              None \<Rightarrow> (Inl (ENOENT_stat finalPath), w')
                            | Some compressed \<Rightarrow>
                                (let compressedSize = length compressed
                                 in (Inr \<lparr>originalSize = originalSize,
                                           compressedSize = compressedSize,
                                           savedPercent =
                                             savedPercent_of compressedSize originalSize,
                                           path = finalPath\<rparr>,
                                     w'))))))"

text \<open>
  \<^verbatim>\<open>downloadAndCompressImage(url, filename, compressionQuality)\<close>. On a redirect the
  function calls itself, and when that call has resolved it resolves its own download
  promise and goes on with its own \<^verbatim>\<open>tempPath\<close>.
\<close>

fun downloadAndCompressImage ::
  "nat \<Rightarrow> env \<Rightarrow> string \<Rightarrow> string \<Rightarrow> int \<Rightarrow> world \<Rightarrow> ((error + downloaded) \<times> world) option" where
  "downloadAndCompressImage fuel env url filename compressionQuality w =
     (let tempFilename = tempFilename_of (now env (clock_reads w)) (random36 env (random_reads w));
          w0 = w\<lparr>clock_reads := Suc (clock_reads w), random_reads := Suc (random_reads w)\<rparr>;
          tempPath = path_join (OUTPUT_DIR env) tempFilename;
          finalPath = path_join (OUTPUT_DIR env) filename
      in case protocol_get env url of
           RequestError err \<Rightarrow> Some (Inl (Error err), w0)
         | RequestTimeout \<Rightarrow> Some (Inl (Error ''Download timeout''), w0)
         | Response statusCode location body \<Rightarrow>
             (case redirectUrl_of statusCode location of
                Some redirectUrl \<Rightarrow>
                  (case fuel of
                     0 \<Rightarrow> None
                   | Suc fuel' \<Rightarrow>
                       (case downloadAndCompressImage fuel' env redirectUrl filename
                               compressionQuality w0 of
                          None \<Rightarrow> None
                        | Some (Inl err, w1) \<Rightarrow> Some (Inl err, w1)
                        | Some (Inr r, w1) \<Rightarrow>
                            Some (compress_download env tempPath finalPath compressionQuality w1)))
              | None \<Rightarrow>
                  if statusCode \<noteq> 200
                  then Some (Inl (Error (''Failed to download image: HTTP '' @ show_nat statusCode)), w0)
                  else (case pipe_to_file env tempPath body w0 of
                          (Inl err, w1) \<Rightarrow> Some (Inl err, w1)
                        | (Inr u, w1) \<Rightarrow>
                            Some (compress_download env tempPath finalPath compressionQuality w1))))"

declare downloadAndCompressImage.simps [simp del]

record image_metadata =
  width :: nat
  height :: nat
  format :: string
  size_bytes :: nat

text \<open>
  \<^verbatim>\<open>getImageMetadata(imagePath)\<close>. \<^verbatim>\<open>metadata.width || 0\<close> replaces a missing (or
  zero) width, \<^verbatim>\<open>metadata.format || "unknown"\<close> a missing (or empty) format; the
  field \<^verbatim>\<open>size\<close> is \<open>size_bytes\<close> here.
\<close>

definition getImageMetadata :: "env \<Rightarrow> string \<Rightarrow> world \<Rightarrow> error + image_metadata" where
  "getImageMetadata env imagePath w =
     (let absolutePath = path_resolve env imagePath
      in case map_of (files w) absolutePath of
           None \<Rightarrow> Inl (Error (''Image not found: '' @ absolutePath))
         | Some bytes \<Rightarrow>
             (case sharp_read_metadata env bytes of
                Inl err \<Rightarrow> Inl (Error err)
              | Inr metadata \<Rightarrow>
                  Inr \<lparr>width = (case md_width metadata of None \<Rightarrow> 0
                                  | Some v \<Rightarrow> if v \<noteq> 0 then v else 0),
                       height = (case md_height metadata of None \<Rightarrow> 0
                                  | Some v \<Rightarrow> if v \<noteq> 0 then v else 0),
                       format = (case md_format metadata of None \<Rightarrow> ''unknown''
                                  | Some v \<Rightarrow> if v \<noteq> [] then v else ''unknown''),
                       size_bytes = length bytes\<rparr>))"

section \<open>The tool-call handler\<close>

text \<open>The six tools of the \<^verbatim>\<open>tools\<close> array, by name.\<close>

definition tool_names :: "string list" where
  "tool_names =
    [''generate_image'', ''compress_image'', ''get_image_info'', ''list_models'',
     ''list_generated_images'', ''get_output_directory'']"

text \<open>
  The arguments object, with the types that the handler casts it to; an optional field
  that is absent is \<open>None\<close>.
\<close>

record tool_args =
  prompt :: string
  model :: "string option"
  reference_image :: "string option"
  aspect_ratio :: "string option"
  compression_quality :: "int option"
  num_outputs :: "int option"
  prompt_strength :: "rat option"
  input_path :: string
  output_path :: "string option"
  quality :: "int option"
  max_width :: "int option"
  max_height :: "int option"
  image_path :: string

text \<open>What the handler returns: the document of \<^verbatim>\<open>content[0].text\<close> before
  \<^verbatim>\<open>JSON.stringify\<close>, and the \<^verbatim>\<open>isError\<close> field when there is one.\<close>

record tool_result =
  content :: json
  isError :: "bool option"

definition truthy_string :: "string option \<Rightarrow> bool" where
  "truthy_string s = (case s of None \<Rightarrow> False | Some v \<Rightarrow> v \<noteq> [])"

text \<open>
  The first half of the \<^verbatim>\<open>generate_image\<close> case: defaults, validation of the model
  and of the reference image, the input of the backend, the backend call and the
  normalisation of its output to a list of URLs.
\<close>

definition request_images ::
  "env \<Rightarrow> tool_args \<Rightarrow> world \<Rightarrow> error + (model_lookup \<times> string list)" where
  "request_images env args w =
     (let model' = (case model args of None \<Rightarrow> DEFAULT_MODEL | Some v \<Rightarrow> v);
          aspect_ratio' = (case aspect_ratio args of None \<Rightarrow> ''1:1'' | Some v \<Rightarrow> v);
          num_outputs' = (case num_outputs args of None \<Rightarrow> 1 | Some v \<Rightarrow> v);
          prompt_strength' = (case prompt_strength args of None \<Rightarrow> 8 / 10 | Some v \<Rightarrow> v);
          modelConfig = MODELS_get model'
      in if modelConfig = Undefined
         then Inl (Error (''Unknown model: '' @ model' @ ''. Available models: '' @
                    join '', '' modelKeys))
         else if truthy_string (reference_image args) \<and> \<not> config_supportsReferenceImage modelConfig
         then Inl (Error (''Model '' @ model' @
                    '' does not support reference images. Use flux-redux or nano-banana-pro instead.''))
         else (case getReplicateClient env of
                 Inl err \<Rightarrow> Inl err
               | Inr client \<Rightarrow>
                   (let input = [(''prompt'', JString (prompt args)),
                                 (''aspect_ratio'', JString aspect_ratio'),
                                 (''num_outputs'', JNumber (of_int (min (max num_outputs' 1) 4)))];
                        input_with_image =
                          (if truthy_string (reference_image args) \<and>
                              config_supportsReferenceImage modelConfig
                           then (case fileToDataUri env (the (reference_image args)) w of
                                   Inl err \<Rightarrow> Inl err
                                 | Inr imageDataUri \<Rightarrow>
                                     Inr (input @ [(''image'', JString imageDataUri),
                                                   (''prompt_strength'', JNumber prompt_strength')]))
                           else Inr input)
                    in case input_with_image of
                         Inl err \<Rightarrow> Inl err
                       | Inr input' \<Rightarrow>
                           (case replicate_run env (config_id modelConfig) input' of
                              Inl err \<Rightarrow> Inl (Error err)
                            | Inr (UrlList urls) \<Rightarrow> Inr (modelConfig, urls)
                            | Inr (SingleUrl url) \<Rightarrow> Inr (modelConfig, [url])))))"

text \<open>The object that the loop pushes to \<^verbatim>\<open>results\<close>.\<close>

definition result_entry :: "downloaded \<Rightarrow> json" where
  "result_entry result =
     JObject [(''path'', JString (path result)),
              (''original_size'', JString (format_kb (originalSize result))),
              (''compressed_size'', JString (format_kb (compressedSize result))),
              (''saved'', JString (show_number (savedPercent result) @ ''%''))]"

text \<open>
  The loop \<^verbatim>\<open>for (let i = 0; i < urls.length; i++)\<close> from index \<open>i\<close> on, over the
  URLs that are left; the first failure ends it, as the exception does.
\<close>

fun download_all ::
  "nat \<Rightarrow> env \<Rightarrow> string \<Rightarrow> int \<Rightarrow> nat \<Rightarrow> string list \<Rightarrow> json list \<Rightarrow> world
    \<Rightarrow> ((error + json list) \<times> world) option" where
  "download_all fuel env prompt_text compression_quality' i [] results w = Some (Inr results, w)"
| "download_all fuel env prompt_text compression_quality' i (url # urls) results w =
     (let baseFilename = generateFilenameFromPrompt prompt_text i (now env (clock_reads w));
          w0 = w\<lparr>clock_reads := Suc (clock_reads w)\<rparr>;
          filename = baseFilename @ ''.jpg''
      in case downloadAndCompressImage fuel env url filename compression_quality' w0 of
           None \<Rightarrow> None
         | Some (Inl err, w') \<Rightarrow> Some (Inl err, w')
         | Some (Inr result, w') \<Rightarrow>
             download_all fuel env prompt_text compression_quality' (Suc i) urls
               (results @ [result_entry result]) w')"

text \<open>The field \<^verbatim>\<open>model\<close> of the success document.\<close>

fun model_json :: "string \<Rightarrow> model_lookup \<Rightarrow> json" where
  "model_json key (OwnProperty config) =
     JObject [(''key'', JString key), (''name'', JString (name config)),
              (''provider'', JString (provider config)),
              (''cost_per_image'', JString (cost config))]"
| "model_json key (Inherited (Some member_name)) =
     JObject [(''key'', JString key), (''name'', JString member_name)]"
| "model_json key (Inherited None) = JObject [(''key'', JString key)]"
| "model_json key Undefined = JObject [(''key'', JString key)]"

definition generate_image ::
  "nat \<Rightarrow> env \<Rightarrow> tool_args \<Rightarrow> world \<Rightarrow> ((error + json) \<times> world) option" where
  "generate_image fuel env args w =
     (let model' = (case model args of None \<Rightarrow> DEFAULT_MODEL | Some v \<Rightarrow> v);
          aspect_ratio' = (case aspect_ratio args of None \<Rightarrow> ''1:1'' | Some v \<Rightarrow> v);
          compression_quality' =
            (case compression_quality args of None \<Rightarrow> DEFAULT_COMPRESSION_QUALITY | Some v \<Rightarrow> v)
      in case request_images env args w of
           Inl err \<Rightarrow> Some (Inl err, w)
         | Inr (modelConfig, urls) \<Rightarrow>
             (case download_all fuel env (prompt args) compression_quality' 0 urls [] w of
                None \<Rightarrow> None
              | Some (Inl err, w') \<Rightarrow> Some (Inl err, w')
              | Some (Inr results, w') \<Rightarrow>
                  Some (Inr (JObject
                    [(''success'', JBool True),
                     (''message'', JString (''Generated '' @ show_nat (length results) @ '' image(s)'')),
                     (''images'', JArray results),
                     (''prompt'', JString (prompt args)),
                     (''model'', model_json model' modelConfig),
                     (''settings'', JObject
                        [(''aspect_ratio'', JString aspect_ratio'),
                         (''compression_quality'', JNumber (of_int compression_quality')),
                         (''had_reference_image'', JBool (truthy_string (reference_image args)))])]),
                    w')))"

definition compress_image :: "env \<Rightarrow> tool_args \<Rightarrow> world \<Rightarrow> (error + json) \<times> world" where
  "compress_image env args w =
     (let quality' = (case quality args of None \<Rightarrow> DEFAULT_COMPRESSION_QUALITY | Some v \<Rightarrow> v);
          finalOutputPath =
            (if truthy_string (output_path args) then the (output_path args)
             else (let dir = path_dirname (input_path args);
                       base = path_basename_ext (input_path args) (path_extname (input_path args))
                   in path_join dir (base @ ''_compressed.jpg'')))
      in case compressImage env (input_path args) finalOutputPath (Some quality')
                (max_width args) (max_height args) w of
           (Inl err, w') \<Rightarrow> (Inl err, w')
         | (Inr result, w') \<Rightarrow>
             (Inr (JObject
                [(''success'', JBool True),
                 (''input_path'', JString (input_path args)),
                 (''output_path'', JString finalOutputPath),
                 (''original_size'', JString (format_kb (originalSize result))),
                 (''compressed_size'', JString (format_kb (compressedSize result))),
                 (''saved'', JString (show_number (savedPercent result) @ ''%''))]),
              w'))"

definition get_image_info :: "env \<Rightarrow> tool_args \<Rightarrow> world \<Rightarrow> error + json" where
  "get_image_info env args w =
     (case getImageMetadata env (image_path args) w of
        Inl err \<Rightarrow> Inl err
      | Inr metadata \<Rightarrow>
          Inr (JObject
            [(''path'', JString (path_resolve env (image_path args))),
             (''width'', JNumber (of_nat (width metadata))),
             (''height'', JNumber (of_nat (height metadata))),
             (''format'', JString (format metadata)),
             (''size'', JString (format_kb (size_bytes metadata)))]))"

definition list_models :: json where
  "list_models =
     JObject
       [(''default_model'', JString DEFAULT_MODEL),
        (''models'', JArray (map (\<lambda>(key, config).
            JObject [(''key'', JString key), (''name'', JString (name config)),
                     (''provider'', JString (provider config)), (''cost'', JString (cost config)),
                     (''supports_reference_image'', JBool (supportsReferenceImage config)),
                     (''description'', JString (description config))]) MODELS))]"

text \<open>
  \<^verbatim>\<open>fs.readdirSync(OUTPUT_DIR)\<close>: the names of the files directly in the directory,
  in the order of the file table.
\<close>

definition readdirSync :: "string \<Rightarrow> world \<Rightarrow> string list" where
  "readdirSync dir w =
     (let stem = path_join dir []
      in map (\<lambda>(p, bytes). drop (length stem) p)
           (filter (\<lambda>(p, bytes). startsWith p stem \<and> length stem < length p \<and>
                                  CHR ''/'' \<notin> set (drop (length stem) p)) (files w)))"

text \<open>The test \<^verbatim>\<open>/\.(png|jpg|jpeg|webp|gif)$/i\<close>.\<close>

definition has_image_extension :: "string \<Rightarrow> bool" where
  "has_image_extension f =
     (\<exists>ext \<in> set [''.png'', ''.jpg'', ''.jpeg'', ''.webp'', ''.gif'']. endsWith (toLowerCase f) ext)"

text \<open>
  The \<^verbatim>\<open>list_generated_images\<close> case. The comparison function of the source orders
  the entries by decreasing creation time, and \<^verbatim>\<open>sort\<close> is stable; here the names are
  sorted before the entries are built from them.
\<close>

definition list_generated_images :: "env \<Rightarrow> world \<Rightarrow> error + json" where
  "list_generated_images env w =
     (let names = sort_key (\<lambda>f. - int (birthtime env (path_join (OUTPUT_DIR env) f)))
                    (filter has_image_extension (readdirSync (OUTPUT_DIR env) w));
          entry = (\<lambda>f. let fullPath = path_join (OUTPUT_DIR env) f
                       in case map_of (files w) fullPath of
                            None \<Rightarrow> Inl (ENOENT_stat fullPath)
                          | Some bytes \<Rightarrow>
                              Inr (JObject
                                [(''filename'', JString f), (''path'', JString fullPath),
                                 (''size'', JString (format_kb (length bytes))),
                                 (''created'', JString (toISOString env (birthtime env fullPath)))]))
      in case filter isl (map entry names) of
           e # es \<Rightarrow> Inl (projl e)
         | [] \<Rightarrow>
             Inr (JObject
               [(''output_directory'', JString (OUTPUT_DIR env)),
                (''image_count'', JNumber (of_nat (length names))),
                (''images'', JArray (map (\<lambda>f. projr (entry f)) names))]))"

definition get_output_directory :: "env \<Rightarrow> json" where
  "get_output_directory env =
     JObject [(''output_directory'', JString (OUTPUT_DIR env)),
              (''exists'', JBool (is_directory env (OUTPUT_DIR env)))]"

text \<open>The \<^verbatim>\<open>switch (name)\<close> inside the \<^verbatim>\<open>try\<close> block.\<close>

definition tool_switch ::
  "nat \<Rightarrow> env \<Rightarrow> string \<Rightarrow> tool_args \<Rightarrow> world \<Rightarrow> ((error + json) \<times> world) option" where
  "tool_switch fuel env tool args w =
     (if tool = ''generate_image'' then generate_image fuel env args w
      else if tool = ''compress_image'' then Some (compress_image env args w)
      else if tool = ''get_image_info'' then Some (get_image_info env args w, w)
      else if tool = ''list_models'' then Some (Inr list_models, w)
      else if tool = ''list_generated_images'' then Some (list_generated_images env w, w)
      else if tool = ''get_output_directory'' then Some (Inr (get_output_directory env), w)
      else Some (Inl (Error (''Unknown tool: '' @ tool)), w))"

text \<open>The document and the flag that the \<^verbatim>\<open>catch\<close> block returns.\<close>

definition error_envelope :: "error \<Rightarrow> tool_result" where
  "error_envelope err =
     \<lparr>content = JObject [(''success'', JBool False), (''error'', JString (message err))],
      isError = Some True\<rparr>"

text \<open>The request handler: the \<^verbatim>\<open>switch\<close> under \<^verbatim>\<open>try\<close>/\<^verbatim>\<open>catch\<close>.\<close>

definition handleToolCall ::
  "nat \<Rightarrow> env \<Rightarrow> string \<Rightarrow> tool_args \<Rightarrow> world \<Rightarrow> (tool_result \<times> world) option" where
  "handleToolCall fuel env tool args w =
     (case tool_switch fuel env tool args w of
        None \<Rightarrow> None
      | Some (Inl err, w') \<Rightarrow> Some (error_envelope err, w')
      | Some (Inr document, w') \<Rightarrow> Some (\<lparr>content = document, isError = None\<rparr>, w'))"

section \<open>An example environment\<close>

text \<open>
  A small world for the concrete runs below: an HTTPS host that serves one image, one
  redirect to it, one body that is no image and 404 for every other URL; a codec that
  accepts the bytes that start with \<open>PNG\<close>; a backend that answers every request with
  two URLs, the second of which is missing.
\<close>

definition example_env :: env where
  "example_env =
     \<lparr>OUTPUT_DIR = ''/out'',
      REPLICATE_API_TOKEN = Some ''r8_example'',
      now = (\<lambda>k. 1700000000000 + k),
      random36 = (\<lambda>k. [k, 10, 35]),
      https_get = (\<lambda>url.
        if url = ''https://cdn.example/a.png'' then Response 200 None ''PNG-A''
        else if url = ''https://cdn.example/moved'' then Response 302 (Some ''https://cdn.example/a.png'') []
        else if url = ''https://cdn.example/broken.png'' then Response 200 None ''<html>''
        else Response 404 None []),
      http_get = (\<lambda>url. RequestError ''connect ECONNREFUSED''),
      write_stream_error = (\<lambda>p. None),
      sharp_jpeg = (\<lambda>bytes resize q.
        if startsWith bytes ''PNG'' then Inr (''JPEG'' @ drop 3 bytes)
        else Inl ''Input file contains unsupported image format''),
      sharp_read_metadata = (\<lambda>bytes.
        if startsWith bytes ''PNG''
        then Inr \<lparr>md_width = Some 100, md_height = Some 100, md_format = Some ''png''\<rparr>
        else if startsWith bytes ''RAW''
        then Inr \<lparr>md_width = None, md_height = None, md_format = None\<rparr>
        else Inl ''Input file contains unsupported image format''),
      replicate_run = (\<lambda>ident input.
        Inr (UrlList [''https://cdn.example/a.png'', ''https://cdn.example/missing.png''])),
      path_resolve = (\<lambda>p. p),
      is_directory = (\<lambda>p. p = ''/out''),
      birthtime = (\<lambda>p. 0),
      toISOString = (\<lambda>t. ''1970-01-01T00:00:00.000Z''),
      base64 = (\<lambda>bytes. bytes)\<rparr>"

definition example_world :: world where
  "example_world = \<lparr>files = [(''/data/raw.bin'', ''RAW'')], clock_reads = 0, random_reads = 0\<rparr>"

definition example_args :: tool_args where
  "example_args =
     \<lparr>prompt = ''a red fox'', model = None, reference_image = None, aspect_ratio = None,
      compression_quality = None, num_outputs = None, prompt_strength = None,
      input_path = [], output_path = None, quality = None, max_width = None,
      max_height = None, image_path = []\<rparr>"

section \<open>Decimal rendering\<close>

lemma digit_char_neq_underscore: "digit_char d \<noteq> CHR ''_''"
  by (simp add: digit_char_def)

lemma digit_char_neq_dot: "digit_char d \<noteq> CHR ''.''"
  by (simp add: digit_char_def)

lemma digit_char_inj: "d < 10 \<Longrightarrow> e < 10 \<Longrightarrow> digit_char d = digit_char e \<Longrightarrow> d = e"
  by (simp add: digit_char_def split: if_splits) arith

lemma show_nat_not_Nil: "show_nat n \<noteq> []"
  by (subst show_nat.simps) simp

lemma underscore_notin_show_nat: "CHR ''_'' \<notin> set (show_nat n)"
proof (induction n rule: show_nat.induct)
  case (1 n)
  show ?case
  proof (cases "n < 10")
    case True
    then show ?thesis
      by (subst show_nat.simps) (simp add: digit_char_neq_underscore [symmetric])
  next
    case False
    with 1 show ?thesis
      by (subst show_nat.simps) (simp add: digit_char_neq_underscore [symmetric])
  qed
qed

lemma dot_notin_show_nat: "CHR ''.'' \<notin> set (show_nat n)"
proof (induction n rule: show_nat.induct)
  case (1 n)
  show ?case
  proof (cases "n < 10")
    case True
    then show ?thesis
      by (subst show_nat.simps) (simp add: digit_char_neq_dot [symmetric])
  next
    case False
    with 1 show ?thesis
      by (subst show_nat.simps) (simp add: digit_char_neq_dot [symmetric])
  qed
qed

lemma show_nat_inj: "show_nat m = show_nat n \<Longrightarrow> m = n"
proof (induction m arbitrary: n rule: show_nat.induct)
  case (1 m)
  show ?case
  proof (cases "m < 10")
    case m_small: True
    show ?thesis
    proof (cases "n < 10")
      case True
      with m_small 1(2) show ?thesis
        by (simp add: show_nat.simps [of m] show_nat.simps [of n] digit_char_inj)
    next
      case False
      with m_small 1(2) show ?thesis
        by (simp add: show_nat.simps [of m] show_nat.simps [of n] show_nat_not_Nil [THEN not_sym])
    qed
  next
    case m_big: False
    show ?thesis
    proof (cases "n < 10")
      case True
      with m_big 1(2) show ?thesis
        by (simp add: show_nat.simps [of m] show_nat.simps [of n] show_nat_not_Nil)
    next
      case False
      with m_big 1(2) have q: "show_nat (m div 10) = show_nat (n div 10)"
        and r: "digit_char (m mod 10) = digit_char (n mod 10)"
        by (simp_all add: show_nat.simps [of m] show_nat.simps [of n])
      from 1(1) [OF m_big q] have "m div 10 = n div 10" .
      moreover from r have "m mod 10 = n mod 10"
        by (rule digit_char_inj [rotated 2]) simp_all
      ultimately show ?thesis
        by (metis div_mult_mod_eq)
    qed
  qed
qed

section \<open>Derived filenames\<close>

lemma split_at_first_sep:
  "c \<notin> set xs \<Longrightarrow> c \<notin> set xs' \<Longrightarrow> xs @ c # ys = xs' @ c # ys' \<Longrightarrow> xs = xs' \<and> ys = ys'"
proof (induction xs arbitrary: xs')
  case Nil
  then show ?case by (cases xs') auto
next
  case (Cons a xs)
  then show ?case by (cases xs') auto
qed

lemma indexSuffix_inj:
  assumes "show_nat t @ (if i > 0 then ''_'' @ show_nat (i + 1) else []) =
           show_nat t' @ (if j > 0 then ''_'' @ show_nat (j + 1) else [])"
  shows "i = j"
proof (cases "i > 0"; cases "j > 0")
  assume "i > 0" "j > 0"
  with assms have "show_nat t @ CHR ''_'' # show_nat (i + 1) = show_nat t' @ CHR ''_'' # show_nat (j + 1)"
    by simp
  then have "show_nat (i + 1) = show_nat (j + 1)"
    using split_at_first_sep [OF underscore_notin_show_nat underscore_notin_show_nat] by blast
  then show ?thesis using show_nat_inj by fastforce
next
  assume "i > 0" "\<not> j > 0"
  with assms have "show_nat t @ CHR ''_'' # show_nat (i + 1) = show_nat t'" by simp
  then have "CHR ''_'' \<in> set (show_nat t')" by (metis in_set_conv_decomp)
  then show ?thesis using underscore_notin_show_nat by blast
next
  assume "\<not> i > 0" "j > 0"
  with assms have "show_nat t' @ CHR ''_'' # show_nat (j + 1) = show_nat t" by simp
  then have "CHR ''_'' \<in> set (show_nat t)" by (metis in_set_conv_decomp)
  then show ?thesis using underscore_notin_show_nat by blast
next
  assume "\<not> i > 0" "\<not> j > 0"
  then show ?thesis by simp
qed

lemma generateFilenameFromPrompt_index_inj:
  "generateFilenameFromPrompt p i t = generateFilenameFromPrompt p j t' \<Longrightarrow> i = j"
  unfolding generateFilenameFromPrompt_def Let_def
  using indexSuffix_inj [of t i t' j] by auto

text \<open>
  C6. Within one request the derived names are pairwise distinct: for one prompt and two
  different output indices the names differ, whatever the two timestamps are, equal ones
  included.
\<close>

theorem filenames_pairwise_distinct:
  "i \<noteq> j \<Longrightarrow> generateFilenameFromPrompt p i t \<noteq> generateFilenameFromPrompt p j t'"
  unfolding generateFilenameFromPrompt_def Let_def
  using indexSuffix_inj [of t i t' j] by auto

theorem filenames_pairwise_distinct_witness:
  "(1::nat) \<noteq> 2 \<and>
   generateFilenameFromPrompt ''a red fox'' 1 1700000000000 \<noteq>
   generateFilenameFromPrompt ''a red fox'' 2 1700000000000"
  using filenames_pairwise_distinct [of 1 2 "''a red fox''" 1700000000000 1700000000000] by simp

text \<open>
  C7. The filename deriver never returns the empty string; and when no token of the prompt
  survives the filter (each one has at most two characters or is a stop word, which covers
  the empty prompt), the name for index 0 is \<open>image_\<close> followed by the timestamp.
\<close>

theorem filename_nonempty_and_fallback:
  "generateFilenameFromPrompt p index t \<noteq> [] \<and>
   ((\<forall>word \<in> set (prompt_tokens p). length word \<le> 2 \<or> word \<in> set stopWords) \<longrightarrow>
    generateFilenameFromPrompt p 0 t = ''image_'' @ show_nat t)"
proof
  show "generateFilenameFromPrompt p index t \<noteq> []"
    by (simp add: generateFilenameFromPrompt_def Let_def)
next
  show "(\<forall>word \<in> set (prompt_tokens p). length word \<le> 2 \<or> word \<in> set stopWords) \<longrightarrow>
    generateFilenameFromPrompt p 0 t = ''image_'' @ show_nat t"
  proof
    assume a: "\<forall>word \<in> set (prompt_tokens p). length word \<le> 2 \<or> word \<in> set stopWords"
    have "filter (\<lambda>word. length word > 2 \<and> word \<notin> set stopWords) (prompt_tokens p) = []"
      unfolding filter_empty_conv using a by auto
    then show "generateFilenameFromPrompt p 0 t = ''image_'' @ show_nat t"
      by (simp add: generateFilenameFromPrompt_def)
  qed
qed

lemma prompt_tokens_example:
  "prompt_tokens ''Make a photo of it!'' = [''make'', ''a'', ''photo'', ''of'', ''it'', []]"
  by (simp add: prompt_tokens_def replace_chars_def toLowerCase_def toLowerCase_char_def
      is_quote_def is_slug_char_def is_space_def)

theorem filename_nonempty_and_fallback_witness:
  "generateFilenameFromPrompt ''Make a photo of it!'' 0 1700000000000 = ''image_1700000000000''"
proof -
  have h: "\<forall>word \<in> set (prompt_tokens ''Make a photo of it!''). length word \<le> 2 \<or> word \<in> set stopWords"
    by (simp add: prompt_tokens_example stopWords_def)
  from filename_nonempty_and_fallback [of "''Make a photo of it!''" 0 1700000000000] h
  have "generateFilenameFromPrompt ''Make a photo of it!'' 0 1700000000000 = ''image_'' @ show_nat 1700000000000"
    by blast
  then show ?thesis by (simp add: show_nat.simps digit_char_def)
qed

section \<open>Rounding to binary64\<close>

















lemma savedPercent_of_examples:
  "savedPercent_of 150 100 = Finite (- 50)"
  "savedPercent_of 85 200 = Finite 57"
  "Math_round ((1 - 85 / 200) * 100) = 58"
  by code_simp+
section \<open>Substrings\<close>

lemma startsWith_append: "startsWith (p @ s) p"
  by (induction p) auto

lemma string_includes_append: "string_includes (a @ p @ s) p"
proof (induction a)
  case Nil
  have "string_includes (p @ s) p"
    by (cases "p @ s") (use startsWith_append [of p s] in auto)
  then show ?case by simp
next
  case (Cons c a)
  then show ?case by simp
qed

section \<open>The error envelope\<close>

text \<open>
  C9. A tool name that is none of the six defined ones reaches the \<^verbatim>\<open>default\<close> case:
  the handler returns the error envelope of the \<^verbatim>\<open>catch\<close> block, with the flag set
  and the document \<open>{success: false, error: "Unknown tool: <name>"}\<close>, and the state is
  untouched.
\<close>

theorem unknown_tool_error_envelope:
  "tool \<notin> set tool_names \<Longrightarrow>
   handleToolCall fuel env tool args w =
     Some (\<lparr>content = JObject [(''success'', JBool False),
                                (''error'', JString (''Unknown tool: '' @ tool))],
            isError = Some True\<rparr>, w) \<and>
   string_includes (''Unknown tool: '' @ tool) ''Unknown tool''"
proof
  assume "tool \<notin> set tool_names"
  then show "handleToolCall fuel env tool args w =
     Some (\<lparr>content = JObject [(''success'', JBool False),
                                (''error'', JString (''Unknown tool: '' @ tool))],
            isError = Some True\<rparr>, w)"
    by (simp add: handleToolCall_def tool_switch_def tool_names_def error_envelope_def)
next
  show "string_includes (''Unknown tool: '' @ tool) ''Unknown tool''"
    using string_includes_append [of "[]" "''Unknown tool''" "'': '' @ tool"] by simp
qed

theorem unknown_tool_error_envelope_witness:
  "handleToolCall 0 example_env ''unknown_tool'' example_args example_world =
     Some (\<lparr>content = JObject [(''success'', JBool False),
                                (''error'', JString ''Unknown tool: unknown_tool'')],
            isError = Some True\<rparr>, example_world)"
  using unknown_tool_error_envelope [of "''unknown_tool''" 0 example_env example_args example_world]
  by (simp add: tool_names_def)

section \<open>Image metadata\<close>

text \<open>
  C10. For an existing file whose metadata \<^verbatim>\<open>sharp\<close> can read, \<^verbatim>\<open>getImageMetadata\<close>
  succeeds: a missing width or height is reported as 0, a missing format as
  \<open>unknown\<close>, the size is the byte length of the file; and \<^verbatim>\<open>get_image_info\<close>
  returns these values in a result without error flag.
\<close>

theorem get_image_info_defaults:
  assumes "map_of (files w) (path_resolve env (image_path args)) = Some bytes"
    and "sharp_read_metadata env bytes = Inr metadata"
  shows "\<exists>r. getImageMetadata env (image_path args) w = Inr r \<and>
           (md_width metadata = None \<longrightarrow> width r = 0) \<and>
           (md_height metadata = None \<longrightarrow> height r = 0) \<and>
           (md_format metadata = None \<longrightarrow> format r = ''unknown'') \<and>
           size_bytes r = length bytes \<and>
           handleToolCall fuel env ''get_image_info'' args w =
             Some (\<lparr>content = JObject
                      [(''path'', JString (path_resolve env (image_path args))),
                       (''width'', JNumber (of_nat (width r))),
                       (''height'', JNumber (of_nat (height r))),
                       (''format'', JString (format r)),
                       (''size'', JString (format_kb (length bytes)))],
                    isError = None\<rparr>, w)"
  using assms
  by (simp add: getImageMetadata_def handleToolCall_def tool_switch_def get_image_info_def)

theorem get_image_info_defaults_witness:
  "handleToolCall 0 example_env ''get_image_info'' (example_args\<lparr>image_path := ''/data/raw.bin''\<rparr>)
     example_world =
   Some (\<lparr>content = JObject
            [(''path'', JString ''/data/raw.bin''), (''width'', JNumber 0), (''height'', JNumber 0),
             (''format'', JString ''unknown''), (''size'', JString ''0.0 KB'')],
          isError = None\<rparr>, example_world)"
proof -
  have f: "map_of (files example_world)
             (path_resolve example_env (image_path (example_args\<lparr>image_path := ''/data/raw.bin''\<rparr>))) =
           Some ''RAW''"
    by (simp add: example_world_def example_env_def)
  have m: "sharp_read_metadata example_env ''RAW'' =
           Inr \<lparr>md_width = None, md_height = None, md_format = None\<rparr>"
    by (simp add: example_env_def)
  have k: "format_kb (Suc (Suc (Suc 0))) = ''0.0 KB''"
    by (simp add: format_kb_def show_nat.simps digit_char_def)
  from get_image_info_defaults [OF f m, of 0] show ?thesis
    by (auto simp: example_env_def k)
qed

section \<open>Model validation\<close>

lemma unknown_model_rejected:
  assumes "MODELS_get (case model args of None \<Rightarrow> DEFAULT_MODEL | Some v \<Rightarrow> v) = Undefined"
  shows "\<exists>msg. handleToolCall fuel env ''generate_image'' args w = Some (error_envelope (Error msg), w) \<and>
           string_includes msg ''Unknown model''"
proof -
  let ?m = "case model args of None \<Rightarrow> DEFAULT_MODEL | Some v \<Rightarrow> v"
  let ?msg = "''Unknown model: '' @ ?m @ ''. Available models: '' @ join '', '' modelKeys"
  have "request_images env args w = Inl (Error ?msg)"
    using assms by (simp add: request_images_def Let_def)
  then have "handleToolCall fuel env ''generate_image'' args w = Some (error_envelope (Error ?msg), w)"
    by (simp add: handleToolCall_def tool_switch_def generate_image_def)
  moreover have "string_includes ?msg ''Unknown model''"
    using string_includes_append [of "[]" "''Unknown model''" "'': '' @ ?m @ ''. Available models: '' @ join '', '' modelKeys"]
    by simp
  ultimately show ?thesis by blast
qed

lemma unknown_model_example:
  "MODELS_get ''unknown-model'' = Undefined"
  by (simp add: MODELS_get_def MODELS_def Object_prototype_def)

lemma inherited_keys_are_found:
  "key \<in> fst ` set Object_prototype \<Longrightarrow> MODELS_get key \<noteq> Undefined \<and> map_of MODELS key = None"
  by (auto simp: MODELS_get_def MODELS_def Object_prototype_def)

text \<open>
  C5. The property read \<^verbatim>\<open>MODELS[model]\<close> finds the members that every object
  inherits, so a model named \<open>constructor\<close>, which is no key of the registry, passes the
  test \<^verbatim>\<open>!modelConfig\<close>. With a reference image the call then fails on the next check,
  and the error of the envelope does not mention \<open>Unknown model\<close>.
\<close>

theorem inherited_key_passes_model_check:
  "handleToolCall fuel env ''generate_image''
     (args\<lparr>model := Some ''constructor'', reference_image := Some ''/ref.png''\<rparr>) w =
   Some (error_envelope (Error (''Model constructor does not support reference images. '' @
                                ''Use flux-redux or nano-banana-pro instead.'')), w) \<and>
   \<not> string_includes (''Model constructor does not support reference images. '' @
                       ''Use flux-redux or nano-banana-pro instead.'') ''Unknown model'' \<and>
   map_of MODELS ''constructor'' = None"
proof (intro conjI)
  have "MODELS_get ''constructor'' = Inherited (Some ''Object'')"
    by (simp add: MODELS_get_def MODELS_def Object_prototype_def)
  then have "request_images env (args\<lparr>model := Some ''constructor'', reference_image := Some ''/ref.png''\<rparr>) w =
    Inl (Error (''Model constructor does not support reference images. '' @
                ''Use flux-redux or nano-banana-pro instead.''))"
    by (simp add: request_images_def Let_def truthy_string_def)
  then show "handleToolCall fuel env ''generate_image''
     (args\<lparr>model := Some ''constructor'', reference_image := Some ''/ref.png''\<rparr>) w =
   Some (error_envelope (Error (''Model constructor does not support reference images. '' @
                                ''Use flux-redux or nano-banana-pro instead.'')), w)"
    by (simp add: handleToolCall_def tool_switch_def generate_image_def)
next
  show "\<not> string_includes (''Model constructor does not support reference images. '' @
                       ''Use flux-redux or nano-banana-pro instead.'') ''Unknown model''"
    by simp
next
  show "map_of MODELS ''constructor'' = None"
    by (simp add: MODELS_def)
qed

section \<open>Runs in the example environment\<close>

lemma example_env_fields:
  "OUTPUT_DIR example_env = ''/out''"
  "REPLICATE_API_TOKEN example_env = Some ''r8_example''"
  "now example_env k = 1700000000000 + k"
  "random36 example_env k = [k, 10, 35]"
  "https_get example_env url =
     (if url = ''https://cdn.example/a.png'' then Response 200 None ''PNG-A''
      else if url = ''https://cdn.example/moved'' then Response 302 (Some ''https://cdn.example/a.png'') []
      else if url = ''https://cdn.example/broken.png'' then Response 200 None ''<html>''
      else Response 404 None [])"
  "write_stream_error example_env p = None"
  "sharp_jpeg example_env bytes resize q =
     (if startsWith bytes ''PNG'' then Inr (''JPEG'' @ drop 3 bytes)
      else Inl ''Input file contains unsupported image format'')"
  "path_resolve example_env p = p"
  "replicate_run example_env ident input =
     Inr (UrlList [''https://cdn.example/a.png'', ''https://cdn.example/missing.png''])"
  by (simp_all add: example_env_def)

lemmas run_defs =
  protocol_get_def redirectUrl_of_def pipe_to_file_def compress_download_def writeFile_def
  unlink_def tempFilename_of_def path_join_def show_nat.simps digit_char_def base36_char_def
  Let_def example_env_fields

lemma savedPercent_of_6_5:
  "savedPercent_of (Suc (Suc (Suc (Suc (Suc (Suc 0)))))) (Suc (Suc (Suc (Suc (Suc 0))))) = Finite (- 20)"
  by code_simp

section \<open>Downloads\<close>

lemma map_of_writeFile:
  "map_of (files (writeFile p bytes w)) p' = (if p' = p then Some bytes else map_of (files w) p')"
  by (simp add: writeFile_def update_conv')

lemma map_of_unlink:
  "map_of (files (unlink p w)) p' = (if p' = p then None else map_of (files w) p')"
  by (simp add: unlink_def delete_conv')

lemma redirectUrl_of_Some_iff:
  "redirectUrl_of statusCode location = Some u \<longleftrightarrow>
     (statusCode = 301 \<or> statusCode = 302) \<and> location = Some u \<and> u \<noteq> []"
  by (auto simp: redirectUrl_of_def split: option.splits)

text \<open>
  The standalone download follows a redirect transparently: with one unit of fuel more, the
  call on the redirecting URL is the call on the target, result and file system alike.
\<close>

lemma downloadImage_follows_redirect:
  assumes "protocol_get env url = Response statusCode (Some redirectUrl) body"
    and "statusCode = 301 \<or> statusCode = 302" and "redirectUrl \<noteq> []"
  shows "downloadImage (Suc fuel) env url filename w = downloadImage fuel env redirectUrl filename w"
  using assms by (subst downloadImage.simps) (auto simp: redirectUrl_of_def)

text \<open>
  C4. A response whose status is a 3xx that is not followed (not 301 or 302 with a
  non-empty \<^verbatim>\<open>Location\<close>), or is below 200 or from 400 on, makes both download
  functions fail with the error \<open>Failed to download image: HTTP <status>\<close>, which holds
  the decimal status code, and no file is written or removed.
\<close>

theorem bad_status_fails_with_status_code:
  assumes "protocol_get env url = Response statusCode location body"
    and "(300 \<le> statusCode \<and> statusCode < 400 \<and> redirectUrl_of statusCode location = None) \<or>
         statusCode < 200 \<or> 400 \<le> statusCode"
  shows "downloadImage fuel env url filename w =
           Some (Inl (Error (''Failed to download image: HTTP '' @ show_nat statusCode)), w) \<and>
         (\<exists>w'. downloadAndCompressImage fuel env url filename q w =
                  Some (Inl (Error (''Failed to download image: HTTP '' @ show_nat statusCode)), w') \<and>
                files w' = files w) \<and>
         string_includes (''Failed to download image: HTTP '' @ show_nat statusCode) (show_nat statusCode)"
proof -
  from assms(2) have r: "redirectUrl_of statusCode location = None"
    by (auto simp: redirectUrl_of_def)
  from assms(2) have s: "statusCode \<noteq> 200" by auto
  have "downloadImage fuel env url filename w =
          Some (Inl (Error (''Failed to download image: HTTP '' @ show_nat statusCode)), w)"
    by (subst downloadImage.simps) (simp add: assms(1) r s)
  moreover have "\<exists>w'. downloadAndCompressImage fuel env url filename q w =
                  Some (Inl (Error (''Failed to download image: HTTP '' @ show_nat statusCode)), w') \<and>
                files w' = files w"
    by (subst downloadAndCompressImage.simps) (simp add: assms(1) r s Let_def)
  moreover have "string_includes (''Failed to download image: HTTP '' @ show_nat statusCode) (show_nat statusCode)"
    using string_includes_append [of "''Failed to download image: HTTP ''" "show_nat statusCode" "[]"]
    by simp
  ultimately show ?thesis by blast
qed

theorem bad_status_fails_with_status_code_witness:
  "downloadImage 0 example_env ''https://cdn.example/missing.png'' ''out.jpg'' example_world =
     Some (Inl (Error ''Failed to download image: HTTP 404''), example_world) \<and>
   downloadAndCompressImage 0 example_env ''https://cdn.example/missing.png'' ''out.jpg'' 85 example_world =
     Some (Inl (Error ''Failed to download image: HTTP 404''),
           example_world\<lparr>clock_reads := Suc 0, random_reads := Suc 0\<rparr>)"
proof -
  have g: "protocol_get example_env ''https://cdn.example/missing.png'' = Response 404 None []"
    by (simp add: protocol_get_def example_env_fields)
  have h: "(300 \<le> (404::nat) \<and> (404::nat) < 400 \<and> redirectUrl_of 404 None = None) \<or>
           (404::nat) < 200 \<or> 400 \<le> (404::nat)"
    by simp
  have n: "show_nat 404 = ''404''"
    by (simp add: show_nat.simps digit_char_def)
  have d: "downloadAndCompressImage 0 example_env ''https://cdn.example/missing.png'' ''out.jpg'' 85 example_world =
     Some (Inl (Error ''Failed to download image: HTTP 404''),
           example_world\<lparr>clock_reads := Suc 0, random_reads := Suc 0\<rparr>)"
    by (subst downloadAndCompressImage.simps) (simp add: run_defs example_world_def)
  from bad_status_fails_with_status_code [OF g h, of 0 "''out.jpg''" example_world 85] d
  show ?thesis by (simp add: n)
qed

text \<open>
  The temporary file outlives a failed compression in every run: when the response is a
  200, the stream is written and the encoder rejects the bytes, the call fails with the
  error of the encoder and the temporary file holds the body.
\<close>

lemma temp_file_left_when_sharp_fails:
  assumes "protocol_get env url = Response 200 location body"
    and "tempPath = path_join (OUTPUT_DIR env)
           (tempFilename_of (now env (clock_reads w)) (random36 env (random_reads w)))"
    and "write_stream_error env tempPath = None"
    and "tempPath \<noteq> path_join (OUTPUT_DIR env) filename"
    and "sharp_jpeg env body None q = Inl err"
  shows "\<exists>w'. downloadAndCompressImage fuel env url filename q w = Some (Inl (Error err), w') \<and>
           map_of (files w') tempPath = Some body"
  using assms
  by (subst downloadAndCompressImage.simps)
    (simp add: redirectUrl_of_def pipe_to_file_def compress_download_def Let_def map_of_writeFile)

text \<open>
  C1. When the encoder rejects the downloaded bytes, \<^verbatim>\<open>downloadAndCompressImage\<close> throws
  before it reaches \<^verbatim>\<open>unlinkSync(tempPath)\<close>: in the example environment the body of
  \<open>broken.png\<close> is no image, the call fails with the error of the encoder, and the
  temporary file is still there afterwards, with the downloaded bytes.
\<close>

theorem temp_file_left_after_failed_compression:
  "downloadAndCompressImage 0 example_env ''https://cdn.example/broken.png'' ''out.jpg'' 85 example_world =
     Some (Inl (Error ''Input file contains unsupported image format''),
           \<lparr>files = [(''/data/raw.bin'', ''RAW''), (''/out/temp_1700000000000_0az'', ''<html>'')],
            clock_reads = Suc 0, random_reads = Suc 0\<rparr>) \<and>
   existsSync \<lparr>files = [(''/data/raw.bin'', ''RAW''), (''/out/temp_1700000000000_0az'', ''<html>'')],
               clock_reads = Suc 0, random_reads = Suc 0\<rparr> ''/out/temp_1700000000000_0az''"
  by (subst downloadAndCompressImage.simps) (simp add: run_defs example_world_def existsSync_def)

text \<open>
  Every followed redirect ends this way: when the inner call has succeeded and the
  temporary path of the outer call names no file, the outer call fails with \<open>ENOENT\<close>.
\<close>

lemma redirect_then_ENOENT:
  assumes "protocol_get env url = Response statusCode (Some redirectUrl) body"
    and "statusCode = 301 \<or> statusCode = 302" and "redirectUrl \<noteq> []"
    and "tempPath = path_join (OUTPUT_DIR env)
           (tempFilename_of (now env (clock_reads w)) (random36 env (random_reads w)))"
    and "downloadAndCompressImage fuel env redirectUrl filename q
           (w\<lparr>clock_reads := Suc (clock_reads w), random_reads := Suc (random_reads w)\<rparr>) =
         Some (Inr r, w1)"
    and "map_of (files w1) tempPath = None"
  shows "downloadAndCompressImage (Suc fuel) env url filename q w = Some (Inl (ENOENT_stat tempPath), w1)"
proof -
  from assms(2,3) have "redirectUrl_of statusCode (Some redirectUrl) = Some redirectUrl"
    by (auto simp: redirectUrl_of_def)
  with assms(1,4,5,6) show ?thesis
    by (subst downloadAndCompressImage.simps) (simp add: Let_def compress_download_def)
qed

lemma download_a_png_after_redirect:
  "downloadAndCompressImage 0 example_env ''https://cdn.example/a.png'' ''out.jpg'' 85
     \<lparr>files = [(''/data/raw.bin'', ''RAW'')], clock_reads = Suc 0, random_reads = Suc 0\<rparr> =
     Some (Inr \<lparr>originalSize = 5, compressedSize = 6, savedPercent = Finite (- 20), path = ''/out/out.jpg''\<rparr>,
           \<lparr>files = [(''/data/raw.bin'', ''RAW''), (''/out/out.jpg'', ''JPEG-A'')],
            clock_reads = Suc (Suc 0), random_reads = Suc (Suc 0)\<rparr>)"
  by (subst downloadAndCompressImage.simps) (simp add: run_defs savedPercent_of_6_5)

text \<open>
  C2. In the example environment \<open>moved\<close> answers 302 with the location of \<open>a.png\<close>.
  Requested directly, \<open>a.png\<close> is downloaded and compressed to \<open>/out/out.jpg\<close>.
  Requested through the redirect, the inner call does the same, and then the outer call
  goes on to \<^verbatim>\<open>statSync\<close> its own temporary file, which was never written: the
  operation fails with \<open>ENOENT\<close> although the artifact is in place.
\<close>

theorem redirect_breaks_downloadAndCompressImage:
  "downloadAndCompressImage (Suc 0) example_env ''https://cdn.example/a.png'' ''out.jpg'' 85 example_world =
     Some (Inr \<lparr>originalSize = 5, compressedSize = 6, savedPercent = Finite (- 20), path = ''/out/out.jpg''\<rparr>,
           \<lparr>files = [(''/data/raw.bin'', ''RAW''), (''/out/out.jpg'', ''JPEG-A'')],
            clock_reads = Suc 0, random_reads = Suc 0\<rparr>) \<and>
   downloadAndCompressImage (Suc 0) example_env ''https://cdn.example/moved'' ''out.jpg'' 85 example_world =
     Some (Inl (Error (''ENOENT: no such file or directory, stat '' @ [CHR 0x27] @
                       ''/out/temp_1700000000000_0az'' @ [CHR 0x27])),
           \<lparr>files = [(''/data/raw.bin'', ''RAW''), (''/out/out.jpg'', ''JPEG-A'')],
            clock_reads = Suc (Suc 0), random_reads = Suc (Suc 0)\<rparr>)"
proof
  show "downloadAndCompressImage (Suc 0) example_env ''https://cdn.example/a.png'' ''out.jpg'' 85 example_world =
     Some (Inr \<lparr>originalSize = 5, compressedSize = 6, savedPercent = Finite (- 20), path = ''/out/out.jpg''\<rparr>,
           \<lparr>files = [(''/data/raw.bin'', ''RAW''), (''/out/out.jpg'', ''JPEG-A'')],
            clock_reads = Suc 0, random_reads = Suc 0\<rparr>)"
    by (subst downloadAndCompressImage.simps)
      (simp add: run_defs example_world_def savedPercent_of_6_5)
next
  show "downloadAndCompressImage (Suc 0) example_env ''https://cdn.example/moved'' ''out.jpg'' 85 example_world =
     Some (Inl (Error (''ENOENT: no such file or directory, stat '' @ [CHR 0x27] @
                       ''/out/temp_1700000000000_0az'' @ [CHR 0x27])),
           \<lparr>files = [(''/data/raw.bin'', ''RAW''), (''/out/out.jpg'', ''JPEG-A'')],
            clock_reads = Suc (Suc 0), random_reads = Suc (Suc 0)\<rparr>)"
    by (subst downloadAndCompressImage.simps)
      (simp add: run_defs example_world_def download_a_png_after_redirect ENOENT_stat_def)
qed

section \<open>What a download step touches\<close>

lemma base36_char_neq_dot: "base36_char d \<noteq> CHR ''.''"
proof -
  have "d mod 36 < length ''0123456789abcdefghijklmnopqrstuvwxyz''" by simp
  then have "base36_char d \<in> set ''0123456789abcdefghijklmnopqrstuvwxyz''"
    unfolding base36_char_def by (rule nth_mem)
  then show ?thesis by auto
qed

lemma dot_notin_tempFilename: "CHR ''.'' \<notin> set (tempFilename_of t ds)"
  by (auto simp: tempFilename_of_def dot_notin_show_nat base36_char_neq_dot [symmetric])

lemma path_join_inj: "path_join d a = path_join d b \<Longrightarrow> a = b"
  by (auto simp: path_join_def split: if_splits)

lemma final_neq_temp: "path_join d (base @ ''.jpg'') \<noteq> path_join d (tempFilename_of t ds)"
proof
  assume "path_join d (base @ ''.jpg'') = path_join d (tempFilename_of t ds)"
  then have "base @ ''.jpg'' = tempFilename_of t ds" by (rule path_join_inj)
  then have "CHR ''.'' \<in> set (tempFilename_of t ds)" by (metis in_set_conv_decomp)
  then show False using dot_notin_tempFilename by blast
qed

lemma pipe_to_file_frame:
  "pipe_to_file env p body w = (res, w') \<Longrightarrow> p' \<noteq> p \<Longrightarrow> map_of (files w') p' = map_of (files w) p'"
  by (auto simp: pipe_to_file_def map_of_writeFile map_of_unlink split: option.splits)

lemma compress_download_frame:
  "compress_download env tempPath finalPath q w = (res, w') \<Longrightarrow> p \<noteq> finalPath \<Longrightarrow> p \<noteq> tempPath \<Longrightarrow>
   map_of (files w') p = map_of (files w) p"
  by (auto simp: compress_download_def Let_def map_of_writeFile map_of_unlink
      split: option.splits sum.splits if_splits)

lemma compress_download_success:
  "compress_download env tempPath finalPath q w = (Inr r, w') \<Longrightarrow>
   path r = finalPath \<and> existsSync w' finalPath"
  by (auto simp: compress_download_def Let_def existsSync_def split: option.splits sum.splits if_splits)

text \<open>
  A call of \<^verbatim>\<open>downloadAndCompressImage\<close>, however it ends, changes no file but its
  final path and the temporary paths.
\<close>

lemma downloadAndCompressImage_frame:
  assumes "downloadAndCompressImage fuel env url filename q w = Some (res, w')"
    and "p \<noteq> path_join (OUTPUT_DIR env) filename"
    and "\<And>t ds. p \<noteq> path_join (OUTPUT_DIR env) (tempFilename_of t ds)"
  shows "map_of (files w') p = map_of (files w) p"
  using assms(1)
proof (induction fuel arbitrary: url w res w')
  case 0
  then show ?case
    apply (subst (asm) downloadAndCompressImage.simps)
    apply (auto simp: Let_def split: http_outcome.splits option.splits if_splits prod.splits sum.splits
        dest!: pipe_to_file_frame [where p' = p] compress_download_frame [where p = p])
    using assms(2,3) apply auto
    done
next
  case (Suc fuel)
  show ?case
  proof (cases "protocol_get env url")
    case (RequestError e)
    with Suc.prems show ?thesis
      by (subst (asm) downloadAndCompressImage.simps) (auto simp: Let_def)
  next
    case RequestTimeout
    with Suc.prems show ?thesis
      by (subst (asm) downloadAndCompressImage.simps) (auto simp: Let_def)
  next
    case (Response statusCode location body)
    let ?w0 = "w\<lparr>clock_reads := Suc (clock_reads w), random_reads := Suc (random_reads w)\<rparr>"
    let ?tempPath = "path_join (OUTPUT_DIR env)
        (tempFilename_of (now env (clock_reads w)) (random36 env (random_reads w)))"
    let ?finalPath = "path_join (OUTPUT_DIR env) filename"
    show ?thesis
    proof (cases "redirectUrl_of statusCode location")
      case None
      with Response Suc.prems show ?thesis
        apply (subst (asm) downloadAndCompressImage.simps)
        apply (auto simp: Let_def split: if_splits prod.splits sum.splits
            dest!: pipe_to_file_frame [where p' = p] compress_download_frame [where p = p])
        using assms(2,3) apply auto
        done
    next
      case (Some redirectUrl)
      show ?thesis
      proof (cases "downloadAndCompressImage fuel env redirectUrl filename q ?w0")
        case None
        with Some Response Suc.prems show ?thesis
          by (subst (asm) downloadAndCompressImage.simps) (simp add: Let_def)
      next
        case inner: (Some a)
        obtain res1 w1 where a: "a = (res1, w1)" by (cases a)
        from Suc.IH [OF inner [unfolded a]] have f1: "map_of (files w1) p = map_of (files w) p"
          by simp
        show ?thesis
        proof (cases res1)
          case (Inl err)
          with Some Response Suc.prems inner a have "w' = w1"
            by (subst (asm) downloadAndCompressImage.simps) (simp add: Let_def)
          with f1 show ?thesis by simp
        next
          case (Inr r)
          with Some Response Suc.prems inner a
          have "compress_download env ?tempPath ?finalPath q w1 = (res, w')"
            by (subst (asm) downloadAndCompressImage.simps) (simp add: Let_def)
          from compress_download_frame [OF this assms(2) assms(3)] f1 show ?thesis by simp
        qed
      qed
    qed
  qed
qed

lemma downloadAndCompressImage_success:
  assumes "downloadAndCompressImage fuel env url filename q w = Some (Inr r, w')"
  shows "path r = path_join (OUTPUT_DIR env) filename \<and> existsSync w' (path r)"
proof -
  from assms obtain tempPath w1 where
    "compress_download env tempPath (path_join (OUTPUT_DIR env) filename) q w1 = (Inr r, w')"
    by (subst (asm) downloadAndCompressImage.simps)
      (auto simp: Let_def split: http_outcome.splits option.splits if_splits prod.splits
        sum.splits nat.splits)
  from compress_download_success [OF this] show ?thesis by simp
qed
section \<open>What the loop over the URLs touches\<close>

lemma final_path_index_inj:
  "path_join d (generateFilenameFromPrompt pt i t @ ''.jpg'') =
   path_join d (generateFilenameFromPrompt pt j t' @ ''.jpg'') \<Longrightarrow> i = j"
  using generateFilenameFromPrompt_index_inj path_join_inj by fastforce

lemma download_all_frame:
  assumes "download_all fuel env pt q i urls acc w = Some (res, w')"
    and "\<And>k t. i \<le> k \<Longrightarrow> p \<noteq> path_join (OUTPUT_DIR env) (generateFilenameFromPrompt pt k t @ ''.jpg'')"
    and "\<And>t ds. p \<noteq> path_join (OUTPUT_DIR env) (tempFilename_of t ds)"
  shows "map_of (files w') p = map_of (files w) p"
  using assms(1,2)
proof (induction urls arbitrary: i acc w)
  case Nil
  then show ?case by simp
next
  case (Cons url urls)
  let ?fn = "generateFilenameFromPrompt pt i (now env (clock_reads w)) @ ''.jpg''"
  let ?w0 = "w\<lparr>clock_reads := Suc (clock_reads w)\<rparr>"
  show ?case
  proof (cases "downloadAndCompressImage fuel env url ?fn q ?w0")
    case None
    with Cons.prems(1) show ?thesis by (simp add: Let_def)
  next
    case (Some a)
    obtain r1 w1 where a: "a = (r1, w1)" by (cases a)
    have "p \<noteq> path_join (OUTPUT_DIR env) ?fn" using Cons.prems(2) [of i] by simp
    from downloadAndCompressImage_frame [OF Some [unfolded a] this assms(3)]
    have f1: "map_of (files w1) p = map_of (files w) p" by simp
    show ?thesis
    proof (cases r1)
      case (Inl err)
      with Some a Cons.prems(1) have "w' = w1" by (simp add: Let_def)
      with f1 show ?thesis by simp
    next
      case (Inr r)
      with Some a Cons.prems(1)
      have "download_all fuel env pt q (Suc i) urls (acc @ [result_entry r]) w1 = Some (res, w')"
        by (simp add: Let_def)
      from Cons.IH [OF this] Cons.prems(2) f1 show ?thesis by simp
    qed
  qed
qed

lemma download_all_results:
  assumes "download_all fuel env pt q i urls acc w = Some (Inr rs, w')"
  shows "\<exists>new. rs = acc @ map result_entry new \<and> length new = length urls \<and>
           (\<forall>r \<in> set new. existsSync w' (path r) \<and>
              (\<exists>k t. i \<le> k \<and> k < i + length urls \<and>
                 path r = path_join (OUTPUT_DIR env) (generateFilenameFromPrompt pt k t @ ''.jpg'')))"
  using assms
proof (induction urls arbitrary: i acc w)
  case Nil
  then show ?case by simp
next
  case (Cons url urls)
  let ?t0 = "now env (clock_reads w)"
  let ?fn = "generateFilenameFromPrompt pt i ?t0 @ ''.jpg''"
  let ?w0 = "w\<lparr>clock_reads := Suc (clock_reads w)\<rparr>"
  from Cons.prems obtain r0 w1 where
    step: "downloadAndCompressImage fuel env url ?fn q ?w0 = Some (Inr r0, w1)" and
    rest: "download_all fuel env pt q (Suc i) urls (acc @ [result_entry r0]) w1 = Some (Inr rs, w')"
    by (auto simp: Let_def split: option.splits sum.splits prod.splits)
  from downloadAndCompressImage_success [OF step]
  have p0: "path r0 = path_join (OUTPUT_DIR env) ?fn" and e0: "existsSync w1 (path r0)" by blast+
  have "map_of (files w') (path r0) = map_of (files w1) (path r0)"
  proof (rule download_all_frame [OF rest])
    fix k t assume "Suc i \<le> k"
    then show "path r0 \<noteq> path_join (OUTPUT_DIR env) (generateFilenameFromPrompt pt k t @ ''.jpg'')"
      unfolding p0 using final_path_index_inj [of "OUTPUT_DIR env" pt i ?t0 k t] by auto
  next
    fix t ds
    show "path r0 \<noteq> path_join (OUTPUT_DIR env) (tempFilename_of t ds)"
      unfolding p0 by (rule final_neq_temp)
  qed
  with e0 have e0': "existsSync w' (path r0)" by (simp add: existsSync_def)
  from Cons.IH [OF rest] obtain new' where
    rs: "rs = (acc @ [result_entry r0]) @ map result_entry new'" and
    len: "length new' = length urls" and
    each: "\<forall>r \<in> set new'. existsSync w' (path r) \<and>
              (\<exists>k t. Suc i \<le> k \<and> k < Suc i + length urls \<and>
                 path r = path_join (OUTPUT_DIR env) (generateFilenameFromPrompt pt k t @ ''.jpg''))"
    by blast
  have "rs = acc @ map result_entry (r0 # new')" using rs by simp
  moreover have "length (r0 # new') = length (url # urls)" using len by simp
  moreover have "\<forall>r \<in> set (r0 # new'). existsSync w' (path r) \<and>
              (\<exists>k t. i \<le> k \<and> k < i + length (url # urls) \<and>
                 path r = path_join (OUTPUT_DIR env) (generateFilenameFromPrompt pt k t @ ''.jpg''))"
  proof
    fix r assume "r \<in> set (r0 # new')"
    then consider "r = r0" | "r \<in> set new'" by auto
    then show "existsSync w' (path r) \<and>
              (\<exists>k t. i \<le> k \<and> k < i + length (url # urls) \<and>
                 path r = path_join (OUTPUT_DIR env) (generateFilenameFromPrompt pt k t @ ''.jpg''))"
    proof cases
      case 1
      with e0' p0 show ?thesis by auto
    next
      case 2
      with each obtain k t where "existsSync w' (path r)" "Suc i \<le> k" "k < Suc i + length urls"
        "path r = path_join (OUTPUT_DIR env) (generateFilenameFromPrompt pt k t @ ''.jpg'')"
        by blast
      then show ?thesis by (intro conjI exI [of _ k] exI [of _ t]) auto
    qed
  qed
  ultimately show ?case by blast
qed

lemma download_all_append:
  "download_all fuel env pt q i (xs @ ys) acc w =
     (case download_all fuel env pt q i xs acc w of
        None \<Rightarrow> None
      | Some (Inl err, w1) \<Rightarrow> Some (Inl err, w1)
      | Some (Inr rs, w1) \<Rightarrow> download_all fuel env pt q (i + length xs) ys rs w1)"
  by (induction xs arbitrary: i acc w)
    (auto simp: Let_def split: option.splits sum.splits prod.splits)

text \<open>
  C3. Let the backend return the URLs \<open>urls\<close>, let the first \<open>n\<close> download-and-compress
  steps succeed (\<open>w\<^sub>n\<close> is the state after them, \<open>rs\<close> their result entries) and let
  the loop as a whole fail with \<open>err\<close> in the state \<open>w_end\<close>. Then the
  \<^verbatim>\<open>generate_image\<close> call returns the error envelope for \<open>err\<close>; there is one entry per
  successful step; and the final file of every entry exists after its step and is the same
  in \<open>w_end\<close>: the later steps and the \<^verbatim>\<open>catch\<close> block leave it alone.
\<close>

theorem no_rollback_of_earlier_outputs:
  assumes "request_images env args w = Inr (modelConfig, urls)"
    and "q = (case compression_quality args of None \<Rightarrow> DEFAULT_COMPRESSION_QUALITY | Some v \<Rightarrow> v)"
    and "download_all fuel env (prompt args) q 0 (take n urls) [] w = Some (Inr rs, w_n)"
    and "download_all fuel env (prompt args) q 0 urls [] w = Some (Inl err, w_end)"
  shows "handleToolCall fuel env ''generate_image'' args w = Some (error_envelope err, w_end) \<and>
         length rs = n \<and> n < length urls \<and>
         (\<forall>entry \<in> set rs. \<exists>r. entry = result_entry r \<and> existsSync w_n (path r) \<and>
            map_of (files w_end) (path r) = map_of (files w_n) (path r))"
proof -
  have h: "handleToolCall fuel env ''generate_image'' args w = Some (error_envelope err, w_end)"
    using assms(1,4) unfolding assms(2)
    by (simp add: handleToolCall_def tool_switch_def generate_image_def Let_def)
  have "urls = take n urls @ drop n urls" by simp
  then have "download_all fuel env (prompt args) q 0 urls [] w =
    download_all fuel env (prompt args) q 0 (take n urls @ drop n urls) [] w" by simp
  also have "\<dots> = download_all fuel env (prompt args) q (length (take n urls)) (drop n urls) rs w_n"
    by (subst download_all_append) (simp add: assms(3))
  finally have rest:
    "download_all fuel env (prompt args) q (length (take n urls)) (drop n urls) rs w_n = Some (Inl err, w_end)"
    using assms(4) by simp
  have n: "n < length urls"
  proof (rule ccontr)
    assume "\<not> n < length urls"
    then have "take n urls = urls" by simp
    with assms(3,4) show False by simp
  qed
  from download_all_results [OF assms(3)] obtain new where
    rs: "rs = map result_entry new" and len: "length new = length (take n urls)" and
    each: "\<forall>r \<in> set new. existsSync w_n (path r) \<and>
              (\<exists>k t. k < length (take n urls) \<and>
                 path r = path_join (OUTPUT_DIR env) (generateFilenameFromPrompt (prompt args) k t @ ''.jpg''))"
    by auto
  have kept: "\<forall>entry \<in> set rs. \<exists>r. entry = result_entry r \<and> existsSync w_n (path r) \<and>
            map_of (files w_end) (path r) = map_of (files w_n) (path r)"
  proof
    fix entry assume "entry \<in> set rs"
    then obtain r where r: "r \<in> set new" and e: "entry = result_entry r" using rs by auto
    from each r obtain k t where ex: "existsSync w_n (path r)" and k: "k < length (take n urls)" and
      p: "path r = path_join (OUTPUT_DIR env) (generateFilenameFromPrompt (prompt args) k t @ ''.jpg'')"
      by blast
    have "map_of (files w_end) (path r) = map_of (files w_n) (path r)"
    proof (rule download_all_frame [OF rest])
      fix k' t' assume "length (take n urls) \<le> k'"
      with k have "k \<noteq> k'" by auto
      then show "path r \<noteq> path_join (OUTPUT_DIR env) (generateFilenameFromPrompt (prompt args) k' t' @ ''.jpg'')"
        unfolding p using final_path_index_inj [of "OUTPUT_DIR env" "prompt args" k t k' t'] by auto
    next
      fix t' ds
      show "path r \<noteq> path_join (OUTPUT_DIR env) (tempFilename_of t' ds)"
        unfolding p by (rule final_neq_temp)
    qed
    with e ex show "\<exists>r. entry = result_entry r \<and> existsSync w_n (path r) \<and>
            map_of (files w_end) (path r) = map_of (files w_n) (path r)" by blast
  qed
  from rs len n have "length rs = n" by simp
  with h n kept show ?thesis by blast
qed
text \<open>The run of C3 in the example environment: the first URL is stored, the second is missing.\<close>

lemma example_filenames:
  "generateFilenameFromPrompt ''a red fox'' 0 1700000000000 = ''red_fox_1700000000000''"
  "generateFilenameFromPrompt ''a red fox'' (Suc 0) 1700000000002 = ''red_fox_1700000000002_2''"
  by (simp_all add: generateFilenameFromPrompt_def prompt_tokens_def replace_chars_def
      toLowerCase_def toLowerCase_char_def is_quote_def is_slug_char_def is_space_def stopWords_def
      show_nat.simps digit_char_def)

lemma example_step_0:
  "downloadAndCompressImage 0 example_env ''https://cdn.example/a.png''
     (generateFilenameFromPrompt ''a red fox'' 0 (now example_env (clock_reads example_world)) @ ''.jpg'') 85
     (example_world\<lparr>clock_reads := Suc (clock_reads example_world)\<rparr>) =
   Some (Inr \<lparr>originalSize = 5, compressedSize = 6, savedPercent = Finite (- 20),
               path = ''/out/red_fox_1700000000000.jpg''\<rparr>,
         \<lparr>files = [(''/data/raw.bin'', ''RAW''), (''/out/red_fox_1700000000000.jpg'', ''JPEG-A'')],
          clock_reads = Suc (Suc 0), random_reads = Suc 0\<rparr>)"
  by (subst downloadAndCompressImage.simps)
    (simp add: run_defs example_world_def example_filenames savedPercent_of_6_5)

lemma example_step_1:
  "downloadAndCompressImage 0 example_env ''https://cdn.example/missing.png''
     (generateFilenameFromPrompt ''a red fox'' (Suc 0) (now example_env (Suc (Suc 0))) @ ''.jpg'') 85
     \<lparr>files = [(''/data/raw.bin'', ''RAW''), (''/out/red_fox_1700000000000.jpg'', ''JPEG-A'')],
      clock_reads = Suc (Suc (Suc 0)), random_reads = Suc 0\<rparr> =
   Some (Inl (Error ''Failed to download image: HTTP 404''),
         \<lparr>files = [(''/data/raw.bin'', ''RAW''), (''/out/red_fox_1700000000000.jpg'', ''JPEG-A'')],
          clock_reads = Suc (Suc (Suc (Suc 0))), random_reads = Suc (Suc 0)\<rparr>)"
  by (subst downloadAndCompressImage.simps) (simp add: run_defs)

lemma example_request:
  "request_images example_env example_args example_world =
     Inr (MODELS_get ''imagen-3'', [''https://cdn.example/a.png'', ''https://cdn.example/missing.png''])"
  by (simp add: request_images_def example_args_def DEFAULT_MODEL_def MODELS_get_def MODELS_def
      truthy_string_def getReplicateClient_def example_env_fields)

lemma example_prefix:
  "download_all 0 example_env ''a red fox'' 85 0 [''https://cdn.example/a.png''] [] example_world =
   Some (Inr [result_entry \<lparr>originalSize = 5, compressedSize = 6, savedPercent = Finite (- 20),
               path = ''/out/red_fox_1700000000000.jpg''\<rparr>],
         \<lparr>files = [(''/data/raw.bin'', ''RAW''), (''/out/red_fox_1700000000000.jpg'', ''JPEG-A'')],
          clock_reads = Suc (Suc 0), random_reads = Suc 0\<rparr>)"
  by (simp add: Let_def example_step_0)

lemma example_loop:
  "download_all 0 example_env ''a red fox'' 85 0
     [''https://cdn.example/a.png'', ''https://cdn.example/missing.png''] [] example_world =
   Some (Inl (Error ''Failed to download image: HTTP 404''),
         \<lparr>files = [(''/data/raw.bin'', ''RAW''), (''/out/red_fox_1700000000000.jpg'', ''JPEG-A'')],
          clock_reads = Suc (Suc (Suc (Suc 0))), random_reads = Suc (Suc 0)\<rparr>)"
  by (simp add: Let_def example_step_0 example_step_1)

theorem no_rollback_of_earlier_outputs_witness:
  "handleToolCall 0 example_env ''generate_image'' example_args example_world =
     Some (error_envelope (Error ''Failed to download image: HTTP 404''),
           \<lparr>files = [(''/data/raw.bin'', ''RAW''), (''/out/red_fox_1700000000000.jpg'', ''JPEG-A'')],
            clock_reads = Suc (Suc (Suc (Suc 0))), random_reads = Suc (Suc 0)\<rparr>) \<and>
   map_of (files \<lparr>files = [(''/data/raw.bin'', ''RAW''), (''/out/red_fox_1700000000000.jpg'', ''JPEG-A'')],
                  clock_reads = Suc (Suc (Suc (Suc 0))), random_reads = Suc (Suc 0)\<rparr>)
     ''/out/red_fox_1700000000000.jpg'' = Some ''JPEG-A''"
proof -
  have q: "(85::int) = (case compression_quality example_args of
             None \<Rightarrow> DEFAULT_COMPRESSION_QUALITY | Some v \<Rightarrow> v)"
    by (simp add: example_args_def DEFAULT_COMPRESSION_QUALITY_def)
  have p: "prompt example_args = ''a red fox''" by (simp add: example_args_def)
  have pre: "download_all 0 example_env (prompt example_args) 85 0
               (take 1 [''https://cdn.example/a.png'', ''https://cdn.example/missing.png'']) [] example_world =
   Some (Inr [result_entry \<lparr>originalSize = 5, compressedSize = 6, savedPercent = Finite (- 20),
               path = ''/out/red_fox_1700000000000.jpg''\<rparr>],
         \<lparr>files = [(''/data/raw.bin'', ''RAW''), (''/out/red_fox_1700000000000.jpg'', ''JPEG-A'')],
          clock_reads = Suc (Suc 0), random_reads = Suc 0\<rparr>)"
    unfolding p using example_prefix by simp
  from no_rollback_of_earlier_outputs [OF example_request q pre example_loop [folded p]]
  show ?thesis by simp
qed

section \<open>The saved percentage\<close>








end
